theory Spec2Isabelle
  imports Complex_Main "HOL-Library.Sublist"
begin

section \<open>The AdManager relay (src/server.js)\<close>

text \<open>
  The server has three routes. The two that do work, \<^verbatim>\<open>POST /test-connection\<close> and
  \<^verbatim>\<open>POST /admanager-revenue\<close>, are embedded here together with \<^verbatim>\<open>getGoogleAuth\<close>.

  Conventions of the embedding.
  \<^item> A JavaScript string is a \<open>string\<close>; a \<open>char\<close> stands for a UTF-16 code unit
    below 256, so \<open>CHR 0xE3\<close> is the letter a-tilde of the Portuguese messages.
  \<^item> \<^verbatim>\<open>undefined\<close> is \<open>None\<close>.
  \<^item> A thrown \<^verbatim>\<open>Error\<close> is \<open>Inl message\<close>; every \<^verbatim>\<open>catch\<close> of the source reads
    only \<^verbatim>\<open>error.message\<close>. The messages of the TypeErrors raised by the language
    itself are those of V8, the engine of Node.js.
  \<^item> A finite JavaScript number is the rational it denotes. \<^verbatim>\<open>parseInt\<close> rounds its
    integer to the nearest double, as the language does; in \<^verbatim>\<open>parseFloat\<close> and in
    addition, rounding to a double and overflow to an infinity are not modelled.
  \<^item> The Google SDK and \<^verbatim>\<open>fetch\<close> are outside the repository: their answers are
    the fields of a record \<open>world\<close>, each call either throwing or returning.
  \<^item> Awaiting and the two-second delay of the polling loop take time only; time is
    not modelled. Writes to the console are not modelled either, except for the
    string conversions they perform, which can throw.
\<close>

subsection \<open>Library functions of the language\<close>

text \<open>Numbers: \<^verbatim>\<open>NaN\<close>, the infinities, and the finite ones.\<close>

datatype jsnum = NaN | Num rat | PosInfinity | NegInfinity

text \<open>\<^verbatim>\<open>a + b\<close> on numbers.\<close>

fun js_add :: "jsnum \<Rightarrow> jsnum \<Rightarrow> jsnum" where
  "js_add NaN _ = NaN"
| "js_add _ NaN = NaN"
| "js_add (Num a) (Num b) = Num (a + b)"
| "js_add (Num _) PosInfinity = PosInfinity"
| "js_add (Num _) NegInfinity = NegInfinity"
| "js_add PosInfinity (Num _) = PosInfinity"
| "js_add NegInfinity (Num _) = NegInfinity"
| "js_add PosInfinity PosInfinity = PosInfinity"
| "js_add NegInfinity NegInfinity = NegInfinity"
| "js_add PosInfinity NegInfinity = NaN"
| "js_add NegInfinity PosInfinity = NaN"

text \<open>Truthiness of a number: \<^verbatim>\<open>NaN\<close> and both zeros are falsy.\<close>

fun num_truthy :: "jsnum \<Rightarrow> bool" where
  "num_truthy NaN = False"
| "num_truthy (Num q) = (q \<noteq> 0)"
| "num_truthy PosInfinity = True"
| "num_truthy NegInfinity = True"

text \<open>\<^verbatim>\<open>x || 0\<close> on a number \<open>x\<close>.\<close>

definition or_zero :: "jsnum \<Rightarrow> jsnum" where
  "or_zero x = (if num_truthy x then x else Num 0)"

text \<open>
  White space and line terminators, as \<^verbatim>\<open>trim\<close>, \<^verbatim>\<open>parseFloat\<close> and
  \<^verbatim>\<open>parseInt\<close> strip them: tab, line feed, vertical tab, form feed, carriage return,
  space and no-break space (the ones below 256).
\<close>

definition is_space :: "char \<Rightarrow> bool" where
  "is_space c = (c \<in> set [CHR 0x09, CHR 0x0A, CHR 0x0B, CHR 0x0C, CHR 0x0D, CHR 0x20, CHR 0xA0])"

definition trim_start :: "string \<Rightarrow> string" where
  "trim_start s = dropWhile is_space s"

text \<open>\<^verbatim>\<open>s.trim()\<close>\<close>

definition trim :: "string \<Rightarrow> string" where
  "trim s = rev (dropWhile is_space (rev (dropWhile is_space s)))"

text \<open>\<^verbatim>\<open>s.split(c)\<close> for a separator of one character: never the empty array.\<close>

fun split :: "char \<Rightarrow> string \<Rightarrow> string list" where
  "split c [] = [[]]"
| "split c (x # xs) =
     (if x = c then [] # split c xs
      else (case split c xs of [] \<Rightarrow> [[x]] | y # ys \<Rightarrow> (x # y) # ys))"

text \<open>\<^verbatim>\<open>a[i]\<close>: \<^verbatim>\<open>undefined\<close> beyond the end.\<close>

definition at_index :: "'a list \<Rightarrow> nat \<Rightarrow> 'a option" where
  "at_index xs i = (if i < length xs then Some (xs ! i) else None)"

text \<open>\<^verbatim>\<open>s.includes(t)\<close>: \<open>t\<close> occurs in \<open>s\<close> as a run of consecutive characters.\<close>

fun str_includes :: "string \<Rightarrow> string \<Rightarrow> bool" where
  "str_includes [] t = (t = [])"
| "str_includes (x # xs) t = (prefix t (x # xs) \<or> str_includes xs t)"

text \<open>Digits and their values.\<close>

definition is_digit :: "char \<Rightarrow> bool" where
  "is_digit c = (48 \<le> (of_char c :: nat) \<and> (of_char c :: nat) \<le> 57)"

definition is_hex_digit :: "char \<Rightarrow> bool" where
  "is_hex_digit c =
     (let n = (of_char c :: nat)
      in (48 \<le> n \<and> n \<le> 57) \<or> (65 \<le> n \<and> n \<le> 70) \<or> (97 \<le> n \<and> n \<le> 102))"

definition digit_value :: "char \<Rightarrow> nat" where
  "digit_value c =
     (let n = (of_char c :: nat)
      in if n \<le> 57 then n - 48 else if n \<le> 70 then n - 55 else n - 87)"

text \<open>The value of a run of digits in a radix, most significant digit first.\<close>

definition digits_value :: "nat \<Rightarrow> string \<Rightarrow> nat" where
  "digits_value radix ds = foldl (\<lambda>acc d. acc * radix + digit_value d) 0 ds"

definition pow10 :: "int \<Rightarrow> rat" where
  "pow10 e = (if 0 \<le> e then 10 ^ nat e else 1 / 10 ^ nat (- e))"

text \<open>
  The exponent part of a decimal literal, read off the text that follows the mantissa:
  \<^verbatim>\<open>e\<close> or \<^verbatim>\<open>E\<close>, an optional sign, and at least one digit. Anything else is no
  exponent.
\<close>

definition exponent_part :: "string \<Rightarrow> int" where
  "exponent_part s =
     (case s of
        [] \<Rightarrow> 0
      | c # r \<Rightarrow>
          if c = CHR ''e'' \<or> c = CHR ''E'' then
            (case r of
               [] \<Rightarrow> 0
             | d # r' \<Rightarrow>
                 if d = CHR ''-'' then
                   (if takeWhile is_digit r' = [] then 0
                    else - int (digits_value 10 (takeWhile is_digit r')))
                 else if d = CHR ''+'' then int (digits_value 10 (takeWhile is_digit r'))
                 else int (digits_value 10 (takeWhile is_digit r)))
          else 0)"

text \<open>
  \<^verbatim>\<open>parseFloat\<close> on a string: leading white space is dropped, then the longest prefix
  that is a decimal literal (sign, \<^verbatim>\<open>Infinity\<close>, or digits with an optional fraction
  and exponent) gives the value; no such prefix gives \<^verbatim>\<open>NaN\<close>.
\<close>

definition parse_float_string :: "string \<Rightarrow> jsnum" where
  "parse_float_string s =
     (let t = trim_start s;
          neg = (case t of [] \<Rightarrow> False | c # _ \<Rightarrow> c = CHR ''-'');
          u = (case t of [] \<Rightarrow> [] | c # r \<Rightarrow> if c = CHR ''-'' \<or> c = CHR ''+'' then r else t)
      in if prefix ''Infinity'' u then (if neg then NegInfinity else PosInfinity)
         else
           let ip = takeWhile is_digit u;
               r1 = dropWhile is_digit u;
               has_dot = (case r1 of [] \<Rightarrow> False | c # _ \<Rightarrow> c = CHR ''.'');
               fp = (if has_dot then takeWhile is_digit (tl r1) else []);
               r2 = (if has_dot then dropWhile is_digit (tl r1) else r1)
           in if ip = [] \<and> fp = [] then NaN
              else
                let mantissa = of_nat (digits_value 10 (ip @ fp)) / 10 ^ length fp;
                    v = mantissa * pow10 (exponent_part r2)
                in Num (if neg then - v else v))"

text \<open>\<^verbatim>\<open>parseFloat(x)\<close> for a string or \<^verbatim>\<open>undefined\<close>, which is first made a string.\<close>

definition parseFloat :: "string option \<Rightarrow> jsnum" where
  "parseFloat x = parse_float_string (case x of None \<Rightarrow> ''undefined'' | Some s \<Rightarrow> s)"

text \<open>
  The Number value of a natural number: the nearest double, a tie going to the even
  significand, and \<^verbatim>\<open>Infinity\<close> from \<open>2 ^ 1024\<close> on. A number below \<open>2 ^ 53\<close> is a
  double. Above, \<open>bit_length n - 53\<close> low bits are rounded away.
\<close>

fun bit_length :: "nat \<Rightarrow> nat" where
  "bit_length n = (if n = 0 then 0 else Suc (bit_length (n div 2)))"

definition number_of_nat :: "nat \<Rightarrow> jsnum" where
  "number_of_nat n =
     (if n < 2 ^ 53 then Num (of_nat n)
      else
        let e = bit_length n - 53;
            q = n div 2 ^ e;
            r = n mod 2 ^ e;
            half = 2 ^ (e - 1);
            q' = (if half < r \<or> (r = half \<and> odd q) then q + 1 else q)
        in if 2 ^ 1024 \<le> q' * 2 ^ e then PosInfinity else Num (of_nat (q' * 2 ^ e)))"

text \<open>\<^verbatim>\<open>-x\<close> on a number.\<close>

fun js_negate :: "jsnum \<Rightarrow> jsnum" where
  "js_negate NaN = NaN"
| "js_negate (Num q) = Num (- q)"
| "js_negate PosInfinity = NegInfinity"
| "js_negate NegInfinity = PosInfinity"

text \<open>
  \<^verbatim>\<open>parseInt\<close> with no radix: leading white space is dropped, a sign is read, a prefix
  \<^verbatim>\<open>0x\<close> or \<^verbatim>\<open>0X\<close> selects radix 16, and the longest run of digits of the radix
  gives the integer, of which the result is the Number value with the sign; an empty
  run gives \<^verbatim>\<open>NaN\<close>.
\<close>

definition parse_int_string :: "string \<Rightarrow> jsnum" where
  "parse_int_string s =
     (let t = trim_start s;
          neg = (case t of [] \<Rightarrow> False | c # _ \<Rightarrow> c = CHR ''-'');
          u = (case t of [] \<Rightarrow> [] | c # r \<Rightarrow> if c = CHR ''-'' \<or> c = CHR ''+'' then r else t);
          hex = (prefix ''0x'' u \<or> prefix ''0X'' u);
          ds = (if hex then takeWhile is_hex_digit (drop 2 u) else takeWhile is_digit u);
          v = number_of_nat (digits_value (if hex then 16 else 10) ds)
      in if ds = [] then NaN else if neg then js_negate v else v)"

definition parseInt :: "string option \<Rightarrow> jsnum" where
  "parseInt x = parse_int_string (case x of None \<Rightarrow> ''undefined'' | Some s \<Rightarrow> s)"

subsection \<open>The CSV aggregation of \<^verbatim>\<open>/admanager-revenue\<close>\<close>

text \<open>
  The body of the loop \<^verbatim>\<open>for (const line of lines)\<close>: a line that is blank after
  trimming is skipped, otherwise the third column is parsed and added.
\<close>

definition add_line :: "jsnum \<Rightarrow> string \<Rightarrow> jsnum" where
  "add_line totalRevenue line =
     (if trim line \<noteq> [] then
        (let columns = split CHR '','' line;
             revenue = or_zero (parseFloat (at_index columns 2))
         in js_add totalRevenue revenue)
      else totalRevenue)"

text \<open>\<^verbatim>\<open>csvData.split('\n').slice(1)\<close>\<close>

definition csv_lines :: "string \<Rightarrow> string list" where
  "csv_lines csvData = drop 1 (split CHR 0x0A csvData)"

definition sum_revenue :: "string list \<Rightarrow> jsnum" where
  "sum_revenue lines = foldl add_line (Num 0) lines"

text \<open>\<^verbatim>\<open>recordsFound: lines.length - 1\<close>\<close>

definition records_found :: "string list \<Rightarrow> int" where
  "records_found lines = int (length lines) - 1"

subsection \<open>Values of a JSON request body\<close>

text \<open>
  \<^verbatim>\<open>express.json()\<close> hands the handler a parsed JSON object; its members can be any
  JSON value, not only strings.
\<close>

datatype json =
    JNull
  | JBool bool
  | JNumber jsnum
  | JString string
  | JArray "json list"
  | JObject "(string \<times> json) list"

text \<open>Truthiness, as \<^verbatim>\<open>!x\<close> tests it; \<open>None\<close> is \<^verbatim>\<open>undefined\<close>.\<close>

fun truthy :: "json option \<Rightarrow> bool" where
  "truthy None = False"
| "truthy (Some JNull) = False"
| "truthy (Some (JBool b)) = b"
| "truthy (Some (JNumber n)) = num_truthy n"
| "truthy (Some (JString s)) = (s \<noteq> [])"
| "truthy (Some (JArray _)) = True"
| "truthy (Some (JObject _)) = True"

definition cannot_convert :: string where
  "cannot_convert = ''Cannot convert object to primitive value''"

text \<open>
  \<^verbatim>\<open>Array.prototype.join\<close> on the converted elements: the first conversion that throws
  ends it, otherwise the pieces are joined with commas.
\<close>

fun join_comma :: "(string + string) list \<Rightarrow> string + string" where
  "join_comma [] = Inr []"
| "join_comma [x] = x"
| "join_comma (x # y # ys) =
     (case x of
        Inl e \<Rightarrow> Inl e
      | Inr s \<Rightarrow> (case join_comma (y # ys) of Inl e \<Rightarrow> Inl e | Inr r \<Rightarrow> Inr (s @ '','' @ r)))"

text \<open>
  The string conversion of a template literal. The conversion of a number is the
  engine's, taken as the parameter \<open>ns\<close>. An object parsed from JSON inherits
  \<^verbatim>\<open>Object.prototype.toString\<close> unless it has a member of its own named
  \<^verbatim>\<open>toString\<close>: that member is not callable, \<^verbatim>\<open>valueOf\<close> returns the object, and
  the conversion throws a TypeError. An array converts by joining its elements, with
  \<^verbatim>\<open>null\<close> as the empty string.
\<close>

fun to_string :: "(jsnum \<Rightarrow> string) \<Rightarrow> json \<Rightarrow> string + string" where
  "to_string ns JNull = Inr ''null''"
| "to_string ns (JBool b) = Inr (if b then ''true'' else ''false'')"
| "to_string ns (JNumber n) = Inr (ns n)"
| "to_string ns (JString s) = Inr s"
| "to_string ns (JArray xs) =
     join_comma (map (\<lambda>x. if x = JNull then Inr [] else to_string ns x) xs)"
| "to_string ns (JObject kvs) =
     (if ''toString'' \<in> set (map fst kvs) then Inl cannot_convert
      else Inr ''[object Object]'')"

definition to_string_opt :: "(jsnum \<Rightarrow> string) \<Rightarrow> json option \<Rightarrow> string + string" where
  "to_string_opt ns v = (case v of None \<Rightarrow> Inr ''undefined'' | Some x \<Rightarrow> to_string ns x)"

subsection \<open>Configuration, the outside world, and the calls made to it\<close>

text \<open>The three variables of \<^verbatim>\<open>process.env\<close> that the handlers read.\<close>

record env =
  GOOGLE_SERVICE_ACCOUNT_EMAIL :: "string option"
  GOOGLE_SERVICE_ACCOUNT_PRIVATE_KEY :: "string option"
  GOOGLE_ADMANAGER_NETWORK_CODE :: "string option"

text \<open>The argument of \<^verbatim>\<open>new google.auth.GoogleAuth\<close>.\<close>

record google_auth =
  client_email :: string
  private_key :: string
  scopes :: "string list"

record js_date =
  year :: jsnum
  month :: jsnum
  day :: jsnum

record report_query =
  dimensions :: "string list"
  columns :: "string list"
  dateRangeType :: string
  rq_startDate :: js_date
  rq_endDate :: js_date
  statement_query :: string

record report_job =
  reportQuery :: report_query

text \<open>The six members of the network object that \<^verbatim>\<open>/test-connection\<close> copies.\<close>

record network =
  networkCode :: "json option"
  displayName :: "json option"
  timeZone :: "json option"
  currencyCode :: "json option"
  publisherId :: "json option"
  effectiveRootAdUnitId :: "json option"

text \<open>
  The answers of the SDK and of the download. \<open>getReportJobStatus w id n\<close> is the answer
  to the status check made after \<open>n\<close> earlier ones. \<open>fetch_text\<close> is \<^verbatim>\<open>fetch(url)\<close>
  followed by \<^verbatim>\<open>.text()\<close>. \<open>number_to_string\<close> is the engine's conversion of a number
  to a string.
\<close>

record world =
  number_to_string :: "jsnum \<Rightarrow> string"
  getClient :: "google_auth \<Rightarrow> string + unit"
  dfp :: "string + unit"
  getCurrentNetwork :: "string + network"
  runReportJob :: "report_job \<Rightarrow> string + string"
  getReportJobStatus :: "string \<Rightarrow> nat \<Rightarrow> string + string"
  getReportDownloadURL :: "string \<Rightarrow> string + string"
  fetch_text :: "string \<Rightarrow> string + string"

datatype call =
    GetClient google_auth
  | Dfp
  | GetCurrentNetwork
  | RunReportJob report_job
  | GetReportJobStatus string
  | GetReportDownloadURL string
  | Fetch string

text \<open>
  A computation is the list of outside calls it made, in order, and how it ended:
  \<open>Inl\<close> the message of the error thrown, \<open>Inr\<close> the value.
\<close>

type_synonym 'a comp = "call list \<times> (string + 'a)"

definition local_step :: "string + 'a \<Rightarrow> 'a comp" where
  "local_step r = ([], r)"

definition outside :: "call \<Rightarrow> string + 'a \<Rightarrow> 'a comp" where
  "outside c r = ([c], r)"

text \<open>Sequencing inside a \<^verbatim>\<open>try\<close> block: a throw skips what follows.\<close>

definition and_then :: "'a comp \<Rightarrow> ('a \<Rightarrow> 'b comp) \<Rightarrow> 'b comp" where
  "and_then m f =
     (case m of
        (cs, Inl e) \<Rightarrow> (cs, Inl e)
      | (cs, Inr x) \<Rightarrow> (case f x of (cs', r) \<Rightarrow> (cs @ cs', r)))"

subsection \<open>\<^verbatim>\<open>getGoogleAuth\<close>\<close>

text \<open>\<^verbatim>\<open>key.replace(/\\n/g, '\n')\<close>: every backslash followed by \<^verbatim>\<open>n\<close>, left to right.\<close>

fun replace_escaped_newlines :: "string \<Rightarrow> string" where
  "replace_escaped_newlines (a # b # rest) =
     (if a = CHR 0x5C \<and> b = CHR ''n'' then CHR 0x0A # replace_escaped_newlines rest
      else a # replace_escaped_newlines (b # rest))"
| "replace_escaped_newlines s = s"

definition credentials_missing :: string where
  "credentials_missing = ''Credenciais do Service Account n'' @ [CHR 0xE3] @ ''o configuradas''"

definition getGoogleAuth :: "env \<Rightarrow> string + google_auth" where
  "getGoogleAuth e =
     (let serviceAccountEmail = GOOGLE_SERVICE_ACCOUNT_EMAIL e;
          privateKey = map_option replace_escaped_newlines (GOOGLE_SERVICE_ACCOUNT_PRIVATE_KEY e)
      in case serviceAccountEmail of
           None \<Rightarrow> Inl credentials_missing
         | Some email \<Rightarrow>
             (case privateKey of
                None \<Rightarrow> Inl credentials_missing
              | Some key \<Rightarrow>
                  if email = [] \<or> key = [] then Inl credentials_missing
                  else Inr \<lparr>client_email = email, private_key = key,
                            scopes = [''https://www.googleapis.com/auth/dfp'',
                                      ''https://www.googleapis.com/auth/adexchange.seller.readonly'']\<rparr>))"

subsection \<open>Responses\<close>

text \<open>
  The object given to \<^verbatim>\<open>res.json\<close>, with the status of the response. A member that
  the handler does not write is \<open>None\<close>.
\<close>

record response =
  status :: nat
  success :: bool
  error :: "string option"
  message :: "string option"
  requiresSetup :: "bool option"
  networkInfo :: "network option"
  totalRevenue :: "jsnum option"
  source :: "string option"
  res_utmCampaign :: "json option"
  res_websiteUrl :: "json option"
  period :: "(json option \<times> json option) option"
  recordsFound :: "int option"
  requiresAuth :: "bool option"

definition no_members :: response where
  "no_members =
     \<lparr>status = 200, success = False, error = None, message = None, requiresSetup = None,
      networkInfo = None, totalRevenue = None, source = None, res_utmCampaign = None,
      res_websiteUrl = None, period = None, recordsFound = None, requiresAuth = None\<rparr>"

subsection \<open>\<^verbatim>\<open>POST /test-connection\<close>\<close>

definition network_code_missing :: string where
  "network_code_missing = ''GOOGLE_ADMANAGER_NETWORK_CODE n'' @ [CHR 0xE3] @ ''o configurado''"

definition setup_message :: string where
  "setup_message =
     ''Credenciais do Service Account n'' @ [CHR 0xE3] @ ''o configuradas. Configure as vari''
     @ [CHR 0xE1] @ ''veis: GOOGLE_SERVICE_ACCOUNT_EMAIL, GOOGLE_SERVICE_ACCOUNT_PRIVATE_KEY, ''
     @ ''GOOGLE_ADMANAGER_NETWORK_CODE''"

text \<open>The \<^verbatim>\<open>try\<close> block.\<close>

definition probe :: "env \<Rightarrow> world \<Rightarrow> network comp" where
  "probe e w =
     and_then (local_step (getGoogleAuth e)) (\<lambda>auth.
     and_then (outside (GetClient auth) (getClient w auth)) (\<lambda>authClient.
     and_then (local_step
                 (case GOOGLE_ADMANAGER_NETWORK_CODE e of
                    None \<Rightarrow> Inl network_code_missing
                  | Some code \<Rightarrow>
                      if code = [] then Inl network_code_missing else Inr ())) (\<lambda>_.
     and_then (outside Dfp (dfp w)) (\<lambda>_.
     outside GetCurrentNetwork (getCurrentNetwork w)))))"

text \<open>The \<^verbatim>\<open>catch\<close> block.\<close>

definition probe_failed :: "string \<Rightarrow> response" where
  "probe_failed msg =
     (let requiresSetup =
            (str_includes msg (''n'' @ [CHR 0xE3] @ ''o configurad'')
             \<or> str_includes msg ''not configured'');
          errorMessage = (if requiresSetup then setup_message else msg)
      in no_members\<lparr>status := (if requiresSetup then 400 else 500), success := False,
                     error := Some errorMessage, requiresSetup := Some requiresSetup\<rparr>)"

definition probe_succeeded :: "network \<Rightarrow> response" where
  "probe_succeeded n =
     no_members\<lparr>status := 200, success := True,
       networkInfo := Some \<lparr>networkCode = networkCode n, displayName = displayName n,
                            timeZone = timeZone n, currencyCode = currencyCode n,
                            publisherId = publisherId n,
                            effectiveRootAdUnitId = effectiveRootAdUnitId n\<rparr>,
       message := Some ''Service Account conectado com sucesso!''\<rparr>"

definition test_connection :: "env \<Rightarrow> world \<Rightarrow> call list \<times> response" where
  "test_connection e w =
     (case probe e w of
        (cs, Inr n) \<Rightarrow> (cs, probe_succeeded n)
      | (cs, Inl msg) \<Rightarrow> (cs, probe_failed msg))"

subsection \<open>\<^verbatim>\<open>POST /admanager-revenue\<close>\<close>

text \<open>The four members that the handler reads from \<^verbatim>\<open>req.body\<close>.\<close>

record body =
  utmCampaign :: "json option"
  websiteUrl :: "json option"
  startDate :: "json option"
  endDate :: "json option"

definition params_required :: string where
  "params_required =
     ''Par'' @ [CHR 0xE2] @ ''metros obrigat'' @ [CHR 0xF3]
     @ ''rios: utmCampaign, startDate, endDate''"

definition timeout_message :: string where
  "timeout_message = ''Timeout ao gerar relat'' @ [CHR 0xF3] @ ''rio do AdManager''"

definition maxAttempts :: nat where
  "maxAttempts = 30"

text \<open>
  The three \<^verbatim>\<open>console.log\<close> lines after the validation. Their template literals
  convert \<^verbatim>\<open>utmCampaign\<close>, \<^verbatim>\<open>startDate\<close>, \<^verbatim>\<open>endDate\<close> and
  \<^verbatim>\<open>websiteUrl || default\<close> to strings, in this order; the first conversion that
  throws ends the \<^verbatim>\<open>try\<close> block.
\<close>

definition website_or_default :: "json option \<Rightarrow> json option" where
  "website_or_default v =
     (if truthy v then v else Some (JString (''N'' @ [CHR 0xE3] @ ''o especificado'')))"

definition log_params :: "world \<Rightarrow> body \<Rightarrow> string + unit" where
  "log_params w b =
     (case to_string_opt (number_to_string w) (utmCampaign b) of
        Inl e \<Rightarrow> Inl e
      | Inr _ \<Rightarrow>
     (case to_string_opt (number_to_string w) (startDate b) of
        Inl e \<Rightarrow> Inl e
      | Inr _ \<Rightarrow>
     (case to_string_opt (number_to_string w) (endDate b) of
        Inl e \<Rightarrow> Inl e
      | Inr _ \<Rightarrow>
     (case to_string_opt (number_to_string w) (website_or_default (websiteUrl b)) of
        Inl e \<Rightarrow> Inl e
      | Inr _ \<Rightarrow> Inr ()))))"

text \<open>
  \<^verbatim>\<open>{year: parseInt(d.split('-')[0]), month: parseInt(d.split('-')[1]),
  day: parseInt(d.split('-')[2])}\<close> for the member named \<open>name\<close>. Only a string has
  a \<^verbatim>\<open>split\<close> method.
\<close>

definition date_of :: "string \<Rightarrow> json option \<Rightarrow> string + js_date" where
  "date_of name d =
     (case d of
        None \<Rightarrow>
          Inl (''Cannot read properties of undefined (reading '' @ [CHR 0x27] @ ''split''
               @ [CHR 0x27] @ '')'')
      | Some JNull \<Rightarrow>
          Inl (''Cannot read properties of null (reading '' @ [CHR 0x27] @ ''split''
               @ [CHR 0x27] @ '')'')
      | Some (JString s) \<Rightarrow>
          Inr \<lparr>year = parseInt (at_index (split CHR ''-'' s) 0),
               month = parseInt (at_index (split CHR ''-'' s) 1),
               day = parseInt (at_index (split CHR ''-'' s) 2)\<rparr>
      | Some _ \<Rightarrow> Inl (name @ ''.split is not a function''))"

text \<open>The object literal \<^verbatim>\<open>reportJob\<close>.\<close>

definition build_report_job :: "world \<Rightarrow> body \<Rightarrow> string + report_job" where
  "build_report_job w b =
     (case date_of ''startDate'' (startDate b) of
        Inl e \<Rightarrow> Inl e
      | Inr sd \<Rightarrow>
     (case date_of ''endDate'' (endDate b) of
        Inl e \<Rightarrow> Inl e
      | Inr ed \<Rightarrow>
     (case to_string_opt (number_to_string w) (utmCampaign b) of
        Inl e \<Rightarrow> Inl e
      | Inr tag \<Rightarrow>
          Inr \<lparr>reportQuery =
                 \<lparr>dimensions = [''DATE'', ''AD_UNIT_NAME''],
                  columns = [''AD_EXCHANGE_REVENUE''],
                  dateRangeType = ''CUSTOM_DATE'',
                  rq_startDate = sd,
                  rq_endDate = ed,
                  statement_query =
                    ''WHERE AD_UNIT_NAME LIKE '' @ [CHR 0x27] @ ''%'' @ tag @ ''%''
                    @ [CHR 0x27]\<rparr>\<rparr>)))"

text \<open>
  The loop \<^verbatim>\<open>while (!isReady && attempts < maxAttempts)\<close>; it returns the final
  \<^verbatim>\<open>isReady\<close> and \<^verbatim>\<open>attempts\<close>.
\<close>

function poll :: "world \<Rightarrow> string \<Rightarrow> bool \<Rightarrow> nat \<Rightarrow> (bool \<times> nat) comp" where
  "poll w jid isReady attempts =
     (if \<not> isReady \<and> attempts < maxAttempts then
        and_then (outside (GetReportJobStatus jid) (getReportJobStatus w jid attempts))
          (\<lambda>status. poll w jid (status = ''COMPLETED'') (attempts + 1))
      else ([], Inr (isReady, attempts)))"
  by pat_completeness auto
termination
  by (relation "measure (\<lambda>(w, jid, isReady, attempts). maxAttempts - attempts)") auto

text \<open>The response of the \<^verbatim>\<open>try\<close> block when nothing has thrown.\<close>

definition revenue_found :: "body \<Rightarrow> string \<Rightarrow> response" where
  "revenue_found b csvData =
     (let lines = csv_lines csvData;
          total = sum_revenue lines
      in no_members\<lparr>status := 200, success := True, totalRevenue := Some total,
           source := Some ''real'', res_utmCampaign := utmCampaign b,
           res_websiteUrl := websiteUrl b, period := Some (startDate b, endDate b),
           recordsFound := Some (records_found lines)\<rparr>)"

text \<open>
  The \<^verbatim>\<open>try\<close> block after the validation, in the four parts the source's comments
  name. First, up to \<^verbatim>\<open>runReportJob\<close>: the log lines, the credentials, the client,
  the service, the report job and its submission. The value is the id of the job.
\<close>

definition run_report :: "env \<Rightarrow> world \<Rightarrow> body \<Rightarrow> string comp" where
  "run_report e w b =
     and_then (local_step (log_params w b)) (\<lambda>_.
     and_then (local_step (getGoogleAuth e)) (\<lambda>auth.
     and_then (outside (GetClient auth) (getClient w auth)) (\<lambda>authClient.
     and_then (outside Dfp (dfp w)) (\<lambda>_.
     and_then (local_step (build_report_job w b)) (\<lambda>reportJob.
     outside (RunReportJob reportJob) (runReportJob w reportJob))))))"

text \<open>Second, the polling loop and the \<^verbatim>\<open>throw\<close> that follows it.\<close>

definition await_report :: "world \<Rightarrow> string \<Rightarrow> unit comp" where
  "await_report w jid =
     and_then (poll w jid False 0) (\<lambda>(isReady, attempts).
     local_step (if \<not> isReady then Inl timeout_message else Inr ()))"

text \<open>Third, the download of the CSV text.\<close>

definition download_report :: "world \<Rightarrow> string \<Rightarrow> string comp" where
  "download_report w jid =
     and_then (outside (GetReportDownloadURL jid) (getReportDownloadURL w jid)) (\<lambda>url.
     outside (Fetch url) (fetch_text w url))"

text \<open>Fourth, the aggregation and the response.\<close>

definition revenue :: "env \<Rightarrow> world \<Rightarrow> body \<Rightarrow> response comp" where
  "revenue e w b =
     and_then (run_report e w b) (\<lambda>jid.
     and_then (await_report w jid) (\<lambda>_.
     and_then (download_report w jid) (\<lambda>csvData.
     local_step (Inr (revenue_found b csvData)))))"

text \<open>The \<^verbatim>\<open>catch\<close> block: the mock result.\<close>

definition mock_result :: "string \<Rightarrow> response" where
  "mock_result msg =
     no_members\<lparr>status := 200, success := True, totalRevenue := Some (Num 0),
       source := Some ''mock'', error := Some msg,
       requiresAuth := Some (str_includes msg ''auth'' \<or> str_includes msg ''credential'')\<rparr>"

definition bad_request :: response where
  "bad_request = no_members\<lparr>status := 400, success := False, error := Some params_required\<rparr>"

text \<open>The handler: validation, then the \<^verbatim>\<open>try\<close> block, then the \<^verbatim>\<open>catch\<close>.\<close>

definition admanager_revenue :: "env \<Rightarrow> world \<Rightarrow> body \<Rightarrow> call list \<times> response" where
  "admanager_revenue e w b =
     (if \<not> truthy (utmCampaign b) \<or> \<not> truthy (startDate b) \<or> \<not> truthy (endDate b)
      then ([], bad_request)
      else (case revenue e w b of
              (cs, Inr r) \<Rightarrow> (cs, r)
            | (cs, Inl msg) \<Rightarrow> (cs, mock_result msg)))"

text \<open>The report jobs submitted by a run, and the number of status checks it made.\<close>

definition jobs_submitted :: "call list \<Rightarrow> report_job list" where
  "jobs_submitted cs = concat (map (\<lambda>c. case c of RunReportJob j \<Rightarrow> [j] | _ \<Rightarrow> []) cs)"

definition status_checks :: "call list \<Rightarrow> nat" where
  "status_checks cs =
     length (filter (\<lambda>c. case c of GetReportJobStatus _ \<Rightarrow> True | _ \<Rightarrow> False) cs)"

subsection \<open>Notions used to state the properties\<close>

text \<open>Backslash followed by \<^verbatim>\<open>n\<close>: what the regular expression \<^verbatim>\<open>/\\n/g\<close> matches.\<close>

definition escaped_newline :: string where
  "escaped_newline = [CHR 0x5C, CHR ''n'']"

text \<open>A variable of the environment that is not set, or set to the empty string.\<close>

definition absent_or_empty :: "string option \<Rightarrow> bool" where
  "absent_or_empty v = (v = None \<or> v = Some [])"

text \<open>The request passes the validation of the handler.\<close>

definition params_present :: "body \<Rightarrow> bool" where
  "params_present b = (truthy (utmCampaign b) \<and> truthy (startDate b) \<and> truthy (endDate b))"

text \<open>
  A value has no object with a member of its own named \<^verbatim>\<open>toString\<close>, neither itself
  nor as an element of an array, at any depth of arrays.
\<close>

fun convertible :: "json \<Rightarrow> bool" where
  "convertible (JArray xs) = (\<forall>x \<in> set xs. convertible x)"
| "convertible (JObject kvs) = (''toString'' \<notin> set (map fst kvs))"
| "convertible _ = True"

definition converts :: "json option \<Rightarrow> bool" where
  "converts v = (case v of None \<Rightarrow> True | Some x \<Rightarrow> convertible x)"

text \<open>
  The date format of the specification, \<^verbatim>\<open>YYYY-MM-DD\<close>: four digits, a hyphen, two
  digits, a hyphen, two digits. The handler has no such test; this definition states
  what the specification asks of a date.
\<close>

definition yyyy_mm_dd :: "string \<Rightarrow> bool" where
  "yyyy_mm_dd s =
     (length s = 10
      \<and> list_all is_digit (take 4 s) \<and> s ! 4 = CHR ''-''
      \<and> list_all is_digit (take 2 (drop 5 s)) \<and> s ! 7 = CHR ''-''
      \<and> list_all is_digit (drop 8 s))"

text \<open>A member of the body is a string.\<close>

definition is_string :: "json option \<Rightarrow> bool" where
  "is_string v = (case v of Some (JString _) \<Rightarrow> True | _ \<Rightarrow> False)"

subsection \<open>Concrete configurations, worlds and requests\<close>

text \<open>The CSV body of the specification's example (no newline after the last line).\<close>

definition csv_example :: string where
  "csv_example =
     ''header'' @ [CHR 0x0A] @ ''A,B,12.5'' @ [CHR 0x0A] @ ''C,D,bad'' @ [CHR 0x0A] @ ''E,F,7.5''"

text \<open>A complete configuration; the key carries two escaped newlines.\<close>

definition env_ok :: env where
  "env_ok =
     \<lparr>GOOGLE_SERVICE_ACCOUNT_EMAIL = Some ''relay@example.iam'',
      GOOGLE_SERVICE_ACCOUNT_PRIVATE_KEY = Some (''BEGIN'' @ [CHR 0x5C] @ ''nMIIE'' @ [CHR 0x5C] @ ''nEND''),
      GOOGLE_ADMANAGER_NETWORK_CODE = Some ''1234''\<rparr>"

definition network_example :: network where
  "network_example =
     \<lparr>networkCode = Some (JString ''1234''), displayName = Some (JString ''Example''),
      timeZone = Some (JString ''America/Sao_Paulo''), currencyCode = Some (JString ''BRL''),
      publisherId = Some (JString ''pub-1''), effectiveRootAdUnitId = Some (JString ''77'')\<rparr>"

text \<open>
  A world in which every call succeeds: the third status check reports the report as
  completed and the download is the example CSV.
\<close>

definition world_ok :: world where
  "world_ok =
     \<lparr>number_to_string = (\<lambda>_. ''0''),
      getClient = (\<lambda>_. Inr ()),
      dfp = Inr (),
      getCurrentNetwork = Inr network_example,
      runReportJob = (\<lambda>_. Inr ''job-1''),
      getReportJobStatus = (\<lambda>_ n. Inr (if n = 2 then ''COMPLETED'' else ''IN_PROGRESS'')),
      getReportDownloadURL = (\<lambda>_. Inr ''https://example.test/report.csv''),
      fetch_text = (\<lambda>_. Inr csv_example)\<rparr>"

definition body_ok :: body where
  "body_ok =
     \<lparr>utmCampaign = Some (JString ''summer''), websiteUrl = None,
      startDate = Some (JString ''2024-01-15''), endDate = Some (JString ''2024-02-29'')\<rparr>"

text \<open>The report job that \<open>body_ok\<close> asks for.\<close>

definition report_job_ok :: report_job where
  "report_job_ok =
     \<lparr>reportQuery =
        \<lparr>dimensions = [''DATE'', ''AD_UNIT_NAME''],
         columns = [''AD_EXCHANGE_REVENUE''],
         dateRangeType = ''CUSTOM_DATE'',
         rq_startDate = \<lparr>year = Num 2024, month = Num 1, day = Num 15\<rparr>,
         rq_endDate = \<lparr>year = Num 2024, month = Num 2, day = Num 29\<rparr>,
         statement_query =
           ''WHERE AD_UNIT_NAME LIKE '' @ [CHR 0x27] @ ''%summer%'' @ [CHR 0x27]\<rparr>\<rparr>"

text \<open>Worlds in which one call goes wrong.\<close>

definition world_client_fails :: world where
  "world_client_fails = world_ok\<lparr>getClient := (\<lambda>_. Inl ''invalid_grant'')\<rparr>"

definition world_bad_credential :: world where
  "world_bad_credential = world_ok\<lparr>getClient := (\<lambda>_. Inl ''invalid credential'')\<rparr>"

definition world_never_ready :: world where
  "world_never_ready = world_ok\<lparr>getReportJobStatus := (\<lambda>_ _. Inr ''IN_PROGRESS'')\<rparr>"

definition world_not_configured :: world where
  "world_not_configured = world_ok\<lparr>getClient := (\<lambda>_. Inl ''API not configured'')\<rparr>"

text \<open>Requests: a start date that is no date, and a \<^verbatim>\<open>websiteUrl\<close> that is an object.\<close>

definition body_garbage_date :: body where
  "body_garbage_date = body_ok\<lparr>startDate := Some (JString ''garbage'')\<rparr>"

definition report_job_garbage :: report_job where
  "report_job_garbage =
     \<lparr>reportQuery =
        \<lparr>dimensions = [''DATE'', ''AD_UNIT_NAME''],
         columns = [''AD_EXCHANGE_REVENUE''],
         dateRangeType = ''CUSTOM_DATE'',
         rq_startDate = \<lparr>year = NaN, month = NaN, day = NaN\<rparr>,
         rq_endDate = \<lparr>year = Num 2024, month = Num 2, day = Num 29\<rparr>,
         statement_query =
           ''WHERE AD_UNIT_NAME LIKE '' @ [CHR 0x27] @ ''%summer%'' @ [CHR 0x27]\<rparr>\<rparr>"

text \<open>A start date that is a number, not a string.\<close>

definition body_number_date :: body where
  "body_number_date = body_ok\<lparr>startDate := Some (JNumber (Num 20240115))\<rparr>"

definition body_with_site :: body where
  "body_with_site = body_ok\<lparr>websiteUrl := Some (JString ''https://example.test'')\<rparr>"

definition body_object_site :: body where
  "body_object_site = body_ok\<lparr>websiteUrl := Some (JObject [(''toString'', JNull)])\<rparr>"

section \<open>Properties\<close>

subsection \<open>Strings\<close>

lemma str_includes_iff: "str_includes s t \<longleftrightarrow> (\<exists>p q. s = p @ t @ q)"
proof (induction s)
  case Nil
  then show ?case by auto
next
  case (Cons x xs)
  have "(\<exists>p q. x # xs = p @ t @ q) \<longleftrightarrow> prefix t (x # xs) \<or> (\<exists>p q. xs = p @ t @ q)"
    using sublist_Cons_right[of t x xs] by (simp add: sublist_def)
  with Cons show ?case by simp
qed

lemma split_not_Nil: "split c s \<noteq> []"
  by (induction s) (auto split: list.splits)

subsection \<open>Sequencing and the polling loop\<close>

declare poll.simps [simp del]

declare bit_length.simps [simp del]

lemma and_then_Inl [simp]: "and_then (cs, Inl e) f = (cs, Inl e)"
  by (simp add: and_then_def)

lemma and_then_Inr [simp]: "and_then (cs, Inr x) f = (cs @ fst (f x), snd (f x))"
  by (simp add: and_then_def split: prod.splits)

lemma and_then_local_Inl [simp]: "and_then (local_step (Inl e)) f = ([], Inl e)"
  by (simp add: local_step_def)

lemma and_then_local_Inr [simp]: "and_then (local_step (Inr x)) f = f x"
  by (simp add: local_step_def)

lemma and_then_outside_Inl [simp]: "and_then (outside c (Inl e)) f = ([c], Inl e)"
  by (simp add: outside_def)

lemma and_then_outside_Inr [simp]: "and_then (outside c (Inr x)) f = (c # fst (f x), snd (f x))"
  by (simp add: outside_def)

lemma status_checks_simps [simp]:
  "status_checks [] = 0"
  "status_checks (GetReportJobStatus j # cs) = Suc (status_checks cs)"
  "status_checks (GetClient a # cs) = status_checks cs"
  "status_checks (Dfp # cs) = status_checks cs"
  "status_checks (GetCurrentNetwork # cs) = status_checks cs"
  "status_checks (RunReportJob r # cs) = status_checks cs"
  "status_checks (GetReportDownloadURL j # cs) = status_checks cs"
  "status_checks (Fetch u # cs) = status_checks cs"
  "status_checks (cs @ ds) = status_checks cs + status_checks ds"
  by (simp_all add: status_checks_def)

lemma jobs_submitted_simps [simp]:
  "jobs_submitted [] = []"
  "jobs_submitted (RunReportJob r # cs) = r # jobs_submitted cs"
  "jobs_submitted (GetReportJobStatus j # cs) = jobs_submitted cs"
  "jobs_submitted (GetClient a # cs) = jobs_submitted cs"
  "jobs_submitted (Dfp # cs) = jobs_submitted cs"
  "jobs_submitted (GetCurrentNetwork # cs) = jobs_submitted cs"
  "jobs_submitted (GetReportDownloadURL j # cs) = jobs_submitted cs"
  "jobs_submitted (Fetch u # cs) = jobs_submitted cs"
  "jobs_submitted (cs @ ds) = jobs_submitted cs @ jobs_submitted ds"
  by (simp_all add: jobs_submitted_def)

lemma poll_step:
  "\<not> isReady \<Longrightarrow> attempts < maxAttempts \<Longrightarrow>
   poll w jid isReady attempts =
     (case getReportJobStatus w jid attempts of
        Inl e \<Rightarrow> ([GetReportJobStatus jid], Inl e)
      | Inr s \<Rightarrow> (GetReportJobStatus jid # fst (poll w jid (s = ''COMPLETED'') (Suc attempts)),
                  snd (poll w jid (s = ''COMPLETED'') (Suc attempts))))"
  by (subst poll.simps) (simp split: sum.splits)

lemma poll_stop:
  "isReady \<or> maxAttempts \<le> attempts \<Longrightarrow> poll w jid isReady attempts = ([], Inr (isReady, attempts))"
  by (subst poll.simps) auto

lemma poll_checks_le: "status_checks (fst (poll w jid isReady attempts)) \<le> maxAttempts - attempts"
proof (induction w jid isReady attempts rule: poll.induct)
  case (1 w jid isReady attempts)
  show ?case
  proof (cases "\<not> isReady \<and> attempts < maxAttempts")
    case True
    show ?thesis
    proof (cases "getReportJobStatus w jid attempts")
      case (Inl e)
      with True show ?thesis by (auto simp: poll_step)
    next
      case (Inr s)
      from 1 [OF True, of s] have "status_checks (fst (poll w jid (s = ''COMPLETED'') (Suc attempts))) \<le> maxAttempts - Suc attempts"
        by simp
      with True Inr show ?thesis by (auto simp: poll_step)
    qed
  next
    case False
    then show ?thesis by (auto simp: poll_stop not_less)
  qed
qed

lemma poll_only_status_checks: "set (fst (poll w jid isReady attempts)) \<subseteq> {GetReportJobStatus jid}"
proof (induction w jid isReady attempts rule: poll.induct)
  case (1 w jid isReady attempts)
  show ?case
  proof (cases "\<not> isReady \<and> attempts < maxAttempts")
    case True
    show ?thesis
    proof (cases "getReportJobStatus w jid attempts")
      case (Inl e)
      with True show ?thesis by (simp add: poll_step)
    next
      case (Inr s)
      from 1 [OF True, of s] have "set (fst (poll w jid (s = ''COMPLETED'') (Suc attempts))) \<subseteq> {GetReportJobStatus jid}"
        by simp
      with True Inr show ?thesis by (simp add: poll_step)
    qed
  next
    case False
    then show ?thesis by (auto simp: poll_stop not_less)
  qed
qed

lemma poll_completed_from:
  assumes "n \<le> k" and "k < maxAttempts"
    and "\<And>i. n \<le> i \<Longrightarrow> i < k \<Longrightarrow> \<exists>s. getReportJobStatus w jid i = Inr s \<and> s \<noteq> ''COMPLETED''"
    and "getReportJobStatus w jid k = Inr ''COMPLETED''"
  shows "poll w jid False n = (replicate (Suc k - n) (GetReportJobStatus jid), Inr (True, Suc k))"
  using assms(1,3)
proof (induction n rule: inc_induct)
  case base
  with assms(2,4) show ?case by (simp add: poll_step poll_stop)
next
  case (step n)
  from step.prems [of n] step.hyps obtain s
    where s: "getReportJobStatus w jid n = Inr s" "s \<noteq> ''COMPLETED''" by auto
  have "poll w jid False (Suc n) = (replicate (Suc k - Suc n) (GetReportJobStatus jid), Inr (True, Suc k))"
    using step.prems by (intro step.IH) auto
  moreover have "n < maxAttempts" using step.hyps assms(2) by simp
  moreover have "Suc k - n = Suc (k - n)" using step.hyps by simp
  ultimately show ?case using s by (simp add: poll_step)
qed

lemma poll_timeout_from:
  assumes "n \<le> maxAttempts"
    and "\<And>i. n \<le> i \<Longrightarrow> i < maxAttempts \<Longrightarrow> \<exists>s. getReportJobStatus w jid i = Inr s \<and> s \<noteq> ''COMPLETED''"
  shows "poll w jid False n = (replicate (maxAttempts - n) (GetReportJobStatus jid), Inr (False, maxAttempts))"
  using assms
proof (induction n rule: inc_induct)
  case base
  show ?case by (simp add: poll_stop)
next
  case (step n)
  from step.prems [of n] step.hyps obtain s
    where s: "getReportJobStatus w jid n = Inr s" "s \<noteq> ''COMPLETED''" by auto
  have "poll w jid False (Suc n) = (replicate (maxAttempts - Suc n) (GetReportJobStatus jid), Inr (False, maxAttempts))"
    using step.prems by (intro step.IH) auto
  moreover have "maxAttempts - n = Suc (maxAttempts - Suc n)" using step.hyps by simp
  ultimately show ?case using s step.hyps by (simp add: poll_step)
qed

lemma poll_throws_from:
  assumes "n \<le> k" and "k < maxAttempts"
    and "\<And>i. n \<le> i \<Longrightarrow> i < k \<Longrightarrow> \<exists>s. getReportJobStatus w jid i = Inr s \<and> s \<noteq> ''COMPLETED''"
    and "getReportJobStatus w jid k = Inl msg"
  shows "poll w jid False n = (replicate (Suc k - n) (GetReportJobStatus jid), Inl msg)"
  using assms(1,3)
proof (induction n rule: inc_induct)
  case base
  with assms(2,4) show ?case by (simp add: poll_step)
next
  case (step n)
  from step.prems [of n] step.hyps obtain s
    where s: "getReportJobStatus w jid n = Inr s" "s \<noteq> ''COMPLETED''" by auto
  have "poll w jid False (Suc n) = (replicate (Suc k - Suc n) (GetReportJobStatus jid), Inl msg)"
    using step.prems by (intro step.IH) auto
  moreover have "n < maxAttempts" using step.hyps assms(2) by simp
  moreover have "Suc k - n = Suc (k - n)" using step.hyps by simp
  ultimately show ?case using s by (simp add: poll_step)
qed

subsection \<open>The four parts of the revenue pipeline\<close>

lemma and_then_local: "and_then (local_step r) f = (case r of Inl e \<Rightarrow> ([], Inl e) | Inr x \<Rightarrow> f x)"
  by (simp split: sum.splits)

lemma and_then_outside:
  "and_then (outside c r) f =
     (case r of Inl e \<Rightarrow> ([c], Inl e) | Inr x \<Rightarrow> (c # fst (f x), snd (f x)))"
  by (simp split: sum.splits)

lemma and_then_pair:
  "and_then m f =
     (case snd m of Inl e \<Rightarrow> (fst m, Inl e) | Inr x \<Rightarrow> (fst m @ fst (f x), snd (f x)))"
  by (cases m) (simp split: sum.splits)

lemma outside_parts [simp]: "fst (outside c r) = [c]" "snd (outside c r) = r"
  by (simp_all add: outside_def)

lemma local_step_parts [simp]: "fst (local_step r) = []" "snd (local_step r) = r"
  by (simp_all add: local_step_def)

lemma run_report_no_status_check: "status_checks (fst (run_report e w b)) = 0"
  by (simp add: run_report_def and_then_local and_then_outside split: sum.splits)

lemma download_report_no_status_check: "status_checks (fst (download_report w jid)) = 0"
  by (simp add: download_report_def and_then_outside split: sum.splits)

lemma await_report_checks_le: "status_checks (fst (await_report w jid)) \<le> maxAttempts"
  using poll_checks_le [of w jid False 0]
  by (simp add: await_report_def and_then_pair local_step_def split: sum.splits prod.splits)

lemma revenue_checks_le: "status_checks (fst (revenue e w b)) \<le> maxAttempts"
  using await_report_checks_le run_report_no_status_check download_report_no_status_check
  by (simp add: revenue_def and_then_pair local_step_def split: sum.splits)

lemma await_report_completed:
  assumes "k < maxAttempts"
    and "\<And>i. i < k \<Longrightarrow> \<exists>s. getReportJobStatus w jid i = Inr s \<and> s \<noteq> ''COMPLETED''"
    and "getReportJobStatus w jid k = Inr ''COMPLETED''"
  shows "await_report w jid = (replicate (Suc k) (GetReportJobStatus jid), Inr ())"
  using poll_completed_from [of 0 k w jid] assms
  by (simp add: await_report_def local_step_def)

lemma await_report_timeout:
  assumes "\<And>i. i < maxAttempts \<Longrightarrow> \<exists>s. getReportJobStatus w jid i = Inr s \<and> s \<noteq> ''COMPLETED''"
  shows "await_report w jid = (replicate maxAttempts (GetReportJobStatus jid), Inl timeout_message)"
  using poll_timeout_from [of 0 w jid] assms
  by (simp add: await_report_def local_step_def)

lemma revenue_Inl_iff:
  "snd (revenue e w b) = Inl msg \<longleftrightarrow>
     snd (run_report e w b) = Inl msg
     \<or> (\<exists>jid. snd (run_report e w b) = Inr jid
          \<and> (snd (await_report w jid) = Inl msg
              \<or> (snd (await_report w jid) = Inr () \<and> snd (download_report w jid) = Inl msg)))"
  by (auto simp: revenue_def and_then_pair local_step_def split: sum.splits)

text \<open>The ways in which each part throws.\<close>

lemma run_report_Inl_iff:
  "snd (run_report e w b) = Inl msg \<longleftrightarrow>
     log_params w b = Inl msg
     \<or> (log_params w b = Inr ()
        \<and> (getGoogleAuth e = Inl msg
           \<or> (\<exists>auth. getGoogleAuth e = Inr auth
                \<and> (getClient w auth = Inl msg
                   \<or> (getClient w auth = Inr ()
                      \<and> (dfp w = Inl msg
                         \<or> (dfp w = Inr ()
                            \<and> (build_report_job w b = Inl msg
                               \<or> (\<exists>job. build_report_job w b = Inr job
                                    \<and> runReportJob w job = Inl msg)))))))))"
  by (auto simp: run_report_def and_then_local and_then_outside split: sum.splits)

lemma await_report_Inl_iff:
  "snd (await_report w jid) = Inl msg \<longleftrightarrow>
     snd (poll w jid False 0) = Inl msg
     \<or> (\<exists>attempts. snd (poll w jid False 0) = Inr (False, attempts) \<and> msg = timeout_message)"
  by (auto simp: await_report_def and_then_pair split: sum.splits prod.splits)

lemma download_report_Inl_iff:
  "snd (download_report w jid) = Inl msg \<longleftrightarrow>
     getReportDownloadURL w jid = Inl msg
     \<or> (\<exists>url. getReportDownloadURL w jid = Inr url \<and> fetch_text w url = Inl msg)"
  by (auto simp: download_report_def and_then_outside split: sum.splits)

lemma revenue_Inr_status: "snd (revenue e w b) = Inr r \<Longrightarrow> status r = 200 \<and> success r \<and> source r = Some ''real''"
  by (auto simp: revenue_def and_then_pair revenue_found_def no_members_def Let_def split: sum.splits)

lemma admanager_revenue_snd:
  "params_present b \<Longrightarrow>
   snd (admanager_revenue e w b) = (case snd (revenue e w b) of Inl msg \<Rightarrow> mock_result msg | Inr r \<Rightarrow> r)"
  by (simp add: admanager_revenue_def params_present_def split: prod.splits sum.splits)

lemma admanager_revenue_fst:
  "params_present b \<Longrightarrow> fst (admanager_revenue e w b) = fst (revenue e w b)"
  by (simp add: admanager_revenue_def params_present_def split: prod.splits sum.splits)

subsection \<open>The CSV example\<close>

lemma csv_example_lines: "csv_lines csv_example = [''A,B,12.5'', ''C,D,bad'', ''E,F,7.5'']"
  by (simp add: csv_example_def csv_lines_def)

text \<open>
  The count \<^verbatim>\<open>lines.length - 1\<close> is the number of data lines when the body ends with
  one newline; without it the count is one short, and on an empty body it is negative.
\<close>

lemma records_found_trailing_newline:
  "records_found (csv_lines (csv_example @ [CHR 0x0A])) = 3"
  by (simp add: csv_example_def csv_lines_def records_found_def)

lemma records_found_empty_body: "records_found (csv_lines []) = - 1"
  by (simp add: csv_lines_def records_found_def)

lemma csv_example_sum: "sum_revenue [''A,B,12.5'', ''C,D,bad'', ''E,F,7.5''] = Num 20"
  by (simp add: sum_revenue_def add_line_def trim_def is_space_def at_index_def parseFloat_def
      parse_float_string_def trim_start_def or_zero_def is_digit_def digits_value_def
      digit_value_def pow10_def exponent_part_def)

text \<open>
  Claim C1. On the CSV body \<^verbatim>\<open>header\nA,B,12.5\nC,D,bad\nE,F,7.5\<close> the response built by
  the handler has \<^verbatim>\<open>totalRevenue\<close> 20 (12.5 + 0 + 7.5). Its \<^verbatim>\<open>recordsFound\<close> is
  \<^verbatim>\<open>lines.length - 1\<close> where \<^verbatim>\<open>lines\<close> already lacks the header: 2, not the 3 data
  lines that were summed.
\<close>

theorem csv_example_response:
  "totalRevenue (revenue_found b csv_example) = Some (Num 20)
   \<and> recordsFound (revenue_found b csv_example) = Some 2
   \<and> length (csv_lines csv_example) = 3"
  by (simp add: revenue_found_def no_members_def csv_example_lines csv_example_sum
      records_found_def)

subsection \<open>Validation of the request\<close>

text \<open>
  Claim C5. When \<^verbatim>\<open>utmCampaign\<close>, \<^verbatim>\<open>startDate\<close> or \<^verbatim>\<open>endDate\<close> is missing from the
  body, the response is the 400 with \<^verbatim>\<open>success: false\<close>, and the handler has made no
  outside call: no report job is submitted.
\<close>

theorem missing_param_rejected:
  assumes "utmCampaign b = None \<or> startDate b = None \<or> endDate b = None"
  shows "snd (admanager_revenue e w b) = bad_request
         \<and> status (snd (admanager_revenue e w b)) = 400
         \<and> \<not> success (snd (admanager_revenue e w b))
         \<and> fst (admanager_revenue e w b) = []
         \<and> jobs_submitted (fst (admanager_revenue e w b)) = []"
  using assms
  by (auto simp: admanager_revenue_def bad_request_def no_members_def jobs_submitted_def)

theorem missing_param_rejected_witness:
  "(utmCampaign (body_ok\<lparr>startDate := None\<rparr>) = None
    \<or> startDate (body_ok\<lparr>startDate := None\<rparr>) = None
    \<or> endDate (body_ok\<lparr>startDate := None\<rparr>) = None)
   \<and> status (snd (admanager_revenue env_ok world_ok (body_ok\<lparr>startDate := None\<rparr>))) = 400
   \<and> \<not> success (snd (admanager_revenue env_ok world_ok (body_ok\<lparr>startDate := None\<rparr>)))
   \<and> jobs_submitted (fst (admanager_revenue env_ok world_ok (body_ok\<lparr>startDate := None\<rparr>))) = []"
proof -
  have h: "utmCampaign (body_ok\<lparr>startDate := None\<rparr>) = None
           \<or> startDate (body_ok\<lparr>startDate := None\<rparr>) = None
           \<or> endDate (body_ok\<lparr>startDate := None\<rparr>) = None"
    by simp
  show ?thesis
    using h missing_param_rejected [OF h, of env_ok world_ok] by blast
qed

text \<open>
  Claim C9. The presence check is a falsiness check: a member that is the empty string
  is rejected with the same 400 response, and the same absence of outside calls, as a
  body in which that member is absent.
\<close>

theorem empty_param_rejected:
  "(utmCampaign b = Some (JString []) \<longrightarrow>
      admanager_revenue e w b = ([], bad_request)
      \<and> admanager_revenue e w b = admanager_revenue e w (b\<lparr>utmCampaign := None\<rparr>))
   \<and> (startDate b = Some (JString []) \<longrightarrow>
      admanager_revenue e w b = ([], bad_request)
      \<and> admanager_revenue e w b = admanager_revenue e w (b\<lparr>startDate := None\<rparr>))
   \<and> (endDate b = Some (JString []) \<longrightarrow>
      admanager_revenue e w b = ([], bad_request)
      \<and> admanager_revenue e w b = admanager_revenue e w (b\<lparr>endDate := None\<rparr>))
   \<and> status bad_request = 400 \<and> \<not> success bad_request"
  by (simp add: admanager_revenue_def bad_request_def no_members_def)

theorem empty_param_rejected_witness:
  "endDate (body_ok\<lparr>endDate := Some (JString [])\<rparr>) = Some (JString [])
   \<and> admanager_revenue env_ok world_ok (body_ok\<lparr>endDate := Some (JString [])\<rparr>)
       = ([], bad_request)
   \<and> admanager_revenue env_ok world_ok (body_ok\<lparr>endDate := Some (JString [])\<rparr>)
       = admanager_revenue env_ok world_ok (body_ok\<lparr>endDate := None\<rparr>)
   \<and> status bad_request = 400"
proof -
  have h: "endDate (body_ok\<lparr>endDate := Some (JString [])\<rparr>) = Some (JString [])"
    by simp
  have u: "body_ok\<lparr>endDate := Some (JString []), endDate := None\<rparr> = body_ok\<lparr>endDate := None\<rparr>"
    by simp
  show ?thesis
    using h u empty_param_rejected [of "body_ok\<lparr>endDate := Some (JString [])\<rparr>" env_ok world_ok]
    by metis
qed

subsection \<open>Credential construction\<close>

lemma replace_escaped_newlines_append:
  "replace_escaped_newlines (a @ escaped_newline @ b)
   = replace_escaped_newlines a @ [CHR 0x0A] @ replace_escaped_newlines b"
  by (induction a rule: replace_escaped_newlines.induct) (auto simp: escaped_newline_def)

lemma replace_escaped_newlines_first:
  "replace_escaped_newlines (c # rest) = CHR ''n'' # t \<Longrightarrow> c = CHR ''n''"
  by (cases rest) (auto split: if_splits)

lemma replace_escaped_newlines_clean:
  "\<not> sublist escaped_newline (replace_escaped_newlines k)"
proof (induction k rule: replace_escaped_newlines.induct)
  case (1 a b rest)
  show ?case
  proof (cases "a = CHR 0x5C \<and> b = CHR ''n''")
    case True
    with 1 show ?thesis
      by (simp add: sublist_Cons_right escaped_newline_def)
  next
    case False
    then have eq: "replace_escaped_newlines (a # b # rest) = a # replace_escaped_newlines (b # rest)"
      by auto
    have np: "\<not> prefix escaped_newline (a # replace_escaped_newlines (b # rest))"
    proof
      assume p: "prefix escaped_newline (a # replace_escaped_newlines (b # rest))"
      then have a: "a = CHR 0x5C" by (simp add: escaped_newline_def)
      from p obtain t where "replace_escaped_newlines (b # rest) = CHR ''n'' # t"
        by (cases "replace_escaped_newlines (b # rest)") (auto simp: escaped_newline_def)
      then have "b = CHR ''n''" by (rule replace_escaped_newlines_first)
      with a False show False by simp
    qed
    from 1(2) False np show ?thesis
      unfolding eq by (simp add: sublist_Cons_right)
  qed
qed (simp_all add: escaped_newline_def sublist_Cons_right)

lemma replace_escaped_newlines_id:
  "\<not> sublist escaped_newline k \<Longrightarrow> replace_escaped_newlines k = k"
  by (induction k rule: replace_escaped_newlines.induct)
     (auto simp: escaped_newline_def sublist_Cons_right)

lemma replace_escaped_newlines_Nil [simp]: "replace_escaped_newlines k = [] \<longleftrightarrow> k = []"
  by (cases k rule: replace_escaped_newlines.cases) auto

text \<open>
  Claim C8. \<^verbatim>\<open>getGoogleAuth\<close> throws its error exactly when the service-account email
  or the private key is absent or the empty string, whatever the rest of the
  configuration is. Otherwise it returns the credentials, with the key normalised: an
  escaped newline anywhere in the key becomes a line feed, with what precedes and what
  follows normalised in the same way, and no escaped newline is left in the result.
\<close>

theorem credential_construction:
  "(absent_or_empty (GOOGLE_SERVICE_ACCOUNT_EMAIL e)
    \<or> absent_or_empty (GOOGLE_SERVICE_ACCOUNT_PRIVATE_KEY e)
    \<longrightarrow> getGoogleAuth e = Inl credentials_missing)
   \<and> (GOOGLE_SERVICE_ACCOUNT_EMAIL e = Some email \<and> email \<noteq> []
       \<and> GOOGLE_SERVICE_ACCOUNT_PRIVATE_KEY e = Some key \<and> key \<noteq> []
      \<longrightarrow> getGoogleAuth e =
            Inr \<lparr>client_email = email,
                 private_key = replace_escaped_newlines key,
                 scopes = [''https://www.googleapis.com/auth/dfp'',
                           ''https://www.googleapis.com/auth/adexchange.seller.readonly'']\<rparr>)
   \<and> replace_escaped_newlines (a @ escaped_newline @ b)
       = replace_escaped_newlines a @ [CHR 0x0A] @ replace_escaped_newlines b
   \<and> \<not> sublist escaped_newline (replace_escaped_newlines k)
   \<and> (\<not> sublist escaped_newline k \<longrightarrow> replace_escaped_newlines k = k)"
  by (auto simp: getGoogleAuth_def absent_or_empty_def replace_escaped_newlines_append
      replace_escaped_newlines_clean replace_escaped_newlines_id split: option.splits)

theorem credential_construction_witness:
  "GOOGLE_SERVICE_ACCOUNT_EMAIL env_ok = Some ''relay@example.iam''
   \<and> GOOGLE_SERVICE_ACCOUNT_PRIVATE_KEY env_ok
       = Some (''BEGIN'' @ escaped_newline @ ''MIIE'' @ escaped_newline @ ''END'')
   \<and> getGoogleAuth env_ok =
       Inr \<lparr>client_email = ''relay@example.iam'',
            private_key = ''BEGIN'' @ [CHR 0x0A] @ ''MIIE'' @ [CHR 0x0A] @ ''END'',
            scopes = [''https://www.googleapis.com/auth/dfp'',
                      ''https://www.googleapis.com/auth/adexchange.seller.readonly'']\<rparr>
   \<and> absent_or_empty
        (GOOGLE_SERVICE_ACCOUNT_PRIVATE_KEY (env_ok\<lparr>GOOGLE_SERVICE_ACCOUNT_PRIVATE_KEY := Some []\<rparr>))
   \<and> getGoogleAuth (env_ok\<lparr>GOOGLE_SERVICE_ACCOUNT_PRIVATE_KEY := Some []\<rparr>)
       = Inl credentials_missing"
proof -
  have present: "GOOGLE_SERVICE_ACCOUNT_EMAIL env_ok = Some ''relay@example.iam''
      \<and> ''relay@example.iam'' \<noteq> []
      \<and> GOOGLE_SERVICE_ACCOUNT_PRIVATE_KEY env_ok
          = Some (''BEGIN'' @ escaped_newline @ ''MIIE'' @ escaped_newline @ ''END'')
      \<and> ''BEGIN'' @ escaped_newline @ ''MIIE'' @ escaped_newline @ ''END'' \<noteq> []"
    by (simp add: env_ok_def escaped_newline_def)
  have empty: "absent_or_empty
        (GOOGLE_SERVICE_ACCOUNT_PRIVATE_KEY (env_ok\<lparr>GOOGLE_SERVICE_ACCOUNT_PRIVATE_KEY := Some []\<rparr>))"
    by (simp add: absent_or_empty_def)
  have normal: "replace_escaped_newlines (''BEGIN'' @ escaped_newline @ ''MIIE'' @ escaped_newline @ ''END'')
      = ''BEGIN'' @ [CHR 0x0A] @ ''MIIE'' @ [CHR 0x0A] @ ''END''"
    by (simp add: escaped_newline_def)
  have ok: "getGoogleAuth env_ok =
       Inr \<lparr>client_email = ''relay@example.iam'',
            private_key = ''BEGIN'' @ [CHR 0x0A] @ ''MIIE'' @ [CHR 0x0A] @ ''END'',
            scopes = [''https://www.googleapis.com/auth/dfp'',
                      ''https://www.googleapis.com/auth/adexchange.seller.readonly'']\<rparr>"
    using present
      credential_construction [of env_ok "''relay@example.iam''"
        "''BEGIN'' @ escaped_newline @ ''MIIE'' @ escaped_newline @ ''END''"]
    unfolding normal by blast
  have missing: "getGoogleAuth (env_ok\<lparr>GOOGLE_SERVICE_ACCOUNT_PRIVATE_KEY := Some []\<rparr>)
       = Inl credentials_missing"
    using empty
      credential_construction [of "env_ok\<lparr>GOOGLE_SERVICE_ACCOUNT_PRIVATE_KEY := Some []\<rparr>"]
    by blast
  show ?thesis using present empty ok missing by simp
qed

subsection \<open>The concrete request\<close>

lemma body_ok_present: "params_present body_ok"
  by (simp add: params_present_def body_ok_def)

lemma log_params_ok: "log_params w body_ok = Inr ()"
  by (simp add: log_params_def to_string_opt_def website_or_default_def body_ok_def)

lemma build_report_job_ok: "build_report_job w body_ok = Inr report_job_ok"
  by (simp add: build_report_job_def date_of_def at_index_def parseInt_def
      parse_int_string_def number_of_nat_def trim_start_def is_space_def is_digit_def
      is_hex_digit_def digits_value_def digit_value_def body_ok_def to_string_opt_def
      report_job_ok_def)

lemma run_report_client_fails:
  "getClient w = (\<lambda>_. Inl msg) \<Longrightarrow> run_report env_ok w body_ok = ([GetClient (projr (getGoogleAuth env_ok))], Inl msg)"
  by (simp add: run_report_def log_params_ok getGoogleAuth_def env_ok_def and_then_local
      and_then_outside)

lemma run_report_ok:
  "getClient w = (\<lambda>_. Inr ()) \<Longrightarrow> dfp w = Inr () \<Longrightarrow> runReportJob w = (\<lambda>_. Inr jid) \<Longrightarrow>
   run_report env_ok w body_ok
   = ([GetClient (projr (getGoogleAuth env_ok)), Dfp, RunReportJob report_job_ok], Inr jid)"
  by (simp add: run_report_def log_params_ok build_report_job_ok getGoogleAuth_def env_ok_def
      and_then_local and_then_outside)

subsection \<open>Failures of the revenue pipeline\<close>

text \<open>
  Claim C2. A request that passes the validation is always answered with status 200.
  When a part of the pipeline throws (the part up to the submission of the job, which
  holds the credentials and the client; the polling with its timeout; the download) the
  answer is the mock result: \<^verbatim>\<open>success\<close> true, \<^verbatim>\<open>totalRevenue\<close> 0, \<^verbatim>\<open>source\<close>
  \<^verbatim>\<open>"mock"\<close>, and \<^verbatim>\<open>error\<close> the message thrown. By \<open>revenue_Inl_iff\<close> these are
  all the ways in which the pipeline fails: the parsing of the CSV does not throw. The
  lemmas \<open>run_report_Inl_iff\<close>, \<open>await_report_Inl_iff\<close> and \<open>download_report_Inl_iff\<close>
  list the calls that make each part throw.
\<close>

theorem failures_masked:
  assumes "params_present b"
  shows "status (snd (admanager_revenue e w b)) = 200
         \<and> (snd (run_report e w b) = Inl msg
             \<or> (\<exists>jid. snd (run_report e w b) = Inr jid
                  \<and> (snd (await_report w jid) = Inl msg
                      \<or> (snd (await_report w jid) = Inr ()
                          \<and> snd (download_report w jid) = Inl msg)))
            \<longrightarrow> snd (admanager_revenue e w b) = mock_result msg
                \<and> status (snd (admanager_revenue e w b)) = 200
                \<and> success (snd (admanager_revenue e w b))
                \<and> totalRevenue (snd (admanager_revenue e w b)) = Some (Num 0)
                \<and> source (snd (admanager_revenue e w b)) = Some ''mock''
                \<and> error (snd (admanager_revenue e w b)) = Some msg)"
proof -
  have ok: "status (snd (admanager_revenue e w b)) = 200"
    using assms revenue_Inr_status [of e w b]
    by (simp add: admanager_revenue_snd mock_result_def no_members_def split: sum.splits)
  have masked: "snd (admanager_revenue e w b) = mock_result msg"
    if "snd (run_report e w b) = Inl msg
         \<or> (\<exists>jid. snd (run_report e w b) = Inr jid
              \<and> (snd (await_report w jid) = Inl msg
                  \<or> (snd (await_report w jid) = Inr ()
                      \<and> snd (download_report w jid) = Inl msg)))"
  proof -
    from that have "snd (revenue e w b) = Inl msg" by (simp add: revenue_Inl_iff)
    with assms show ?thesis by (simp add: admanager_revenue_snd)
  qed
  have fields: "status (mock_result msg) = 200 \<and> success (mock_result msg)
      \<and> totalRevenue (mock_result msg) = Some (Num 0)
      \<and> source (mock_result msg) = Some ''mock'' \<and> error (mock_result msg) = Some msg"
    by (simp add: mock_result_def no_members_def)
  show ?thesis
    using ok masked fields by simp
qed

theorem failures_masked_witness:
  "params_present body_ok
   \<and> snd (run_report env_ok world_client_fails body_ok) = Inl ''invalid_grant''
   \<and> snd (admanager_revenue env_ok world_client_fails body_ok) = mock_result ''invalid_grant''
   \<and> status (snd (admanager_revenue env_ok world_client_fails body_ok)) = 200
   \<and> success (snd (admanager_revenue env_ok world_client_fails body_ok))
   \<and> totalRevenue (snd (admanager_revenue env_ok world_client_fails body_ok)) = Some (Num 0)
   \<and> source (snd (admanager_revenue env_ok world_client_fails body_ok)) = Some ''mock''
   \<and> error (snd (admanager_revenue env_ok world_client_fails body_ok)) = Some ''invalid_grant''"
proof -
  have f: "snd (run_report env_ok world_client_fails body_ok) = Inl ''invalid_grant''"
    by (simp add: run_report_client_fails world_client_fails_def)
  show ?thesis
    using body_ok_present f
      failures_masked [OF body_ok_present, of env_ok world_client_fails "''invalid_grant''"]
    by blast
qed

subsection \<open>The polling loop\<close>

text \<open>
  Claim C3. A run of the handler makes at most 30 status checks. When the checks before
  check \<open>k\<close> (counted from 0, \<open>k < 30\<close>) report something else and check \<open>k\<close> reports
  \<^verbatim>\<open>COMPLETED\<close>, the loop stops after these \<open>k + 1\<close> checks and nothing is thrown.
  When none of 30 checks reports \<^verbatim>\<open>COMPLETED\<close>, the loop stops after the 30 checks, the
  timeout error is thrown, and the handler answers with the mock result carrying it.
\<close>

theorem polling_bounded:
  "status_checks (fst (admanager_revenue e w b)) \<le> 30
   \<and> (k < 30
       \<and> (\<forall>i<k. \<exists>s. getReportJobStatus w jid i = Inr s \<and> s \<noteq> ''COMPLETED'')
       \<and> getReportJobStatus w jid k = Inr ''COMPLETED''
      \<longrightarrow> poll w jid False 0 = (replicate (Suc k) (GetReportJobStatus jid), Inr (True, Suc k))
          \<and> await_report w jid = (replicate (Suc k) (GetReportJobStatus jid), Inr ()))
   \<and> ((\<forall>i<30. \<exists>s. getReportJobStatus w jid i = Inr s \<and> s \<noteq> ''COMPLETED'')
      \<longrightarrow> poll w jid False 0 = (replicate 30 (GetReportJobStatus jid), Inr (False, 30))
          \<and> await_report w jid = (replicate 30 (GetReportJobStatus jid), Inl timeout_message)
          \<and> (params_present b \<and> snd (run_report e w b) = Inr jid
              \<longrightarrow> snd (admanager_revenue e w b) = mock_result timeout_message
                  \<and> status_checks (fst (admanager_revenue e w b)) = 30))"
proof (intro conjI impI)
  show "status_checks (fst (admanager_revenue e w b)) \<le> 30"
    using revenue_checks_le [of e w b]
    by (cases "params_present b")
       (simp_all add: admanager_revenue_fst maxAttempts_def,
        simp add: admanager_revenue_def params_present_def)
next
  assume h: "k < 30
       \<and> (\<forall>i<k. \<exists>s. getReportJobStatus w jid i = Inr s \<and> s \<noteq> ''COMPLETED'')
       \<and> getReportJobStatus w jid k = Inr ''COMPLETED''"
  then show "poll w jid False 0 = (replicate (Suc k) (GetReportJobStatus jid), Inr (True, Suc k))"
    using poll_completed_from [of 0 k w jid] by (simp add: maxAttempts_def)
  from h show "await_report w jid = (replicate (Suc k) (GetReportJobStatus jid), Inr ())"
    using await_report_completed [of k w jid] by (simp add: maxAttempts_def)
next
  assume h: "\<forall>i<30. \<exists>s. getReportJobStatus w jid i = Inr s \<and> s \<noteq> ''COMPLETED''"
  then show "poll w jid False 0 = (replicate 30 (GetReportJobStatus jid), Inr (False, 30))"
    using poll_timeout_from [of 0 w jid] by (simp add: maxAttempts_def)
  from h show t: "await_report w jid = (replicate 30 (GetReportJobStatus jid), Inl timeout_message)"
    using await_report_timeout [of w jid] by (simp add: maxAttempts_def)
  assume r: "params_present b \<and> snd (run_report e w b) = Inr jid"
  with t have "snd (revenue e w b) = Inl timeout_message"
    by (simp add: revenue_Inl_iff)
  with r show "snd (admanager_revenue e w b) = mock_result timeout_message"
    by (simp add: admanager_revenue_snd)
  from r t run_report_no_status_check [of e w b]
  show "status_checks (fst (admanager_revenue e w b)) = 30"
    by (simp add: admanager_revenue_fst revenue_def and_then_pair status_checks_def)
qed


theorem polling_bounded_witness:
  "status_checks (fst (admanager_revenue env_ok world_ok body_ok)) \<le> 30
   \<and> poll world_ok ''job-1'' False 0
       = (replicate 3 (GetReportJobStatus ''job-1''), Inr (True, 3))
   \<and> poll world_never_ready ''job-1'' False 0
       = (replicate 30 (GetReportJobStatus ''job-1''), Inr (False, 30))
   \<and> await_report world_never_ready ''job-1''
       = (replicate 30 (GetReportJobStatus ''job-1''), Inl timeout_message)
   \<and> snd (admanager_revenue env_ok world_never_ready body_ok) = mock_result timeout_message
   \<and> status_checks (fst (admanager_revenue env_ok world_never_ready body_ok)) = 30"
proof -
  have third: "(2::nat) < 30
       \<and> (\<forall>i<2. \<exists>s. getReportJobStatus world_ok ''job-1'' i = Inr s \<and> s \<noteq> ''COMPLETED'')
       \<and> getReportJobStatus world_ok ''job-1'' 2 = Inr ''COMPLETED''"
    by (simp add: world_ok_def)
  have never: "\<forall>i<30. \<exists>s. getReportJobStatus world_never_ready ''job-1'' i = Inr s
                 \<and> s \<noteq> ''COMPLETED''"
    by (simp add: world_never_ready_def)
  have submitted: "params_present body_ok
                   \<and> snd (run_report env_ok world_never_ready body_ok) = Inr ''job-1''"
    by (simp add: body_ok_present run_report_ok world_never_ready_def world_ok_def)
  have three: "Suc 2 = 3" by simp
  show ?thesis
    using third never submitted
      polling_bounded [of env_ok world_ok body_ok 2 "''job-1''"]
      polling_bounded [of env_ok world_never_ready body_ok 0 "''job-1''"]
    unfolding three by blast
qed

subsection \<open>The \<^verbatim>\<open>requiresAuth\<close> flag\<close>

text \<open>
  Claim C6. In the mock result, \<^verbatim>\<open>requiresAuth\<close> is true exactly when the message of
  the caught error contains \<^verbatim>\<open>auth\<close> or \<^verbatim>\<open>credential\<close> as a run of consecutive
  characters, compared exactly (so \<^verbatim>\<open>Authentication failed\<close> does not count).
\<close>

theorem requires_auth_flag:
  "requiresAuth (mock_result msg)
     = Some ((\<exists>p q. msg = p @ ''auth'' @ q) \<or> (\<exists>p q. msg = p @ ''credential'' @ q))
   \<and> (params_present b \<and> snd (revenue e w b) = Inl msg
      \<longrightarrow> requiresAuth (snd (admanager_revenue e w b))
          = Some ((\<exists>p q. msg = p @ ''auth'' @ q) \<or> (\<exists>p q. msg = p @ ''credential'' @ q)))"
  by (simp add: admanager_revenue_snd mock_result_def no_members_def str_includes_iff)

theorem requires_auth_flag_witness:
  "params_present body_ok
   \<and> snd (revenue env_ok world_bad_credential body_ok) = Inl ''invalid credential''
   \<and> requiresAuth (snd (admanager_revenue env_ok world_bad_credential body_ok)) = Some True
   \<and> requiresAuth (mock_result ''Authentication failed'') = Some False"
proof -
  have f: "snd (revenue env_ok world_bad_credential body_ok) = Inl ''invalid credential''"
    by (simp add: revenue_Inl_iff run_report_client_fails world_bad_credential_def)
  have yes: "(\<exists>p q. ''invalid credential'' = p @ ''auth'' @ q)
             \<or> (\<exists>p q. ''invalid credential'' = p @ ''credential'' @ q)"
    unfolding str_includes_iff [symmetric] by simp
  have no: "\<not> ((\<exists>p q. ''Authentication failed'' = p @ ''auth'' @ q)
             \<or> (\<exists>p q. ''Authentication failed'' = p @ ''credential'' @ q))"
    unfolding str_includes_iff [symmetric] by simp
  show ?thesis
    using body_ok_present f yes no
      requires_auth_flag [of "''invalid credential''" body_ok env_ok world_bad_credential]
      requires_auth_flag [of "''Authentication failed''" body_ok env_ok world_bad_credential]
    by simp
qed

subsection \<open>The outcomes of \<^verbatim>\<open>/test-connection\<close>\<close>

lemma test_connection_snd:
  "snd (test_connection e w)
   = (case snd (probe e w) of Inl msg \<Rightarrow> probe_failed msg | Inr n \<Rightarrow> probe_succeeded n)"
  by (simp add: test_connection_def split: prod.splits sum.splits)

lemma credentials_missing_marked:
  "str_includes credentials_missing (''n'' @ [CHR 0xE3] @ ''o configurad'')"
  by (simp add: credentials_missing_def)

lemma network_code_missing_marked:
  "str_includes network_code_missing (''n'' @ [CHR 0xE3] @ ''o configurad'')"
  by (simp add: network_code_missing_def)

lemma getGoogleAuth_missing:
  "absent_or_empty (GOOGLE_SERVICE_ACCOUNT_EMAIL e)
   \<or> absent_or_empty (GOOGLE_SERVICE_ACCOUNT_PRIVATE_KEY e)
   \<Longrightarrow> getGoogleAuth e = Inl credentials_missing"
  by (auto simp: getGoogleAuth_def absent_or_empty_def split: option.splits)

lemma probe_credentials_missing:
  "getGoogleAuth e = Inl msg \<Longrightarrow> probe e w = ([], Inl msg)"
  by (simp add: probe_def)

lemma probe_network_code_missing:
  "getGoogleAuth e = Inr auth \<Longrightarrow> getClient w auth = Inr () \<Longrightarrow>
   absent_or_empty (GOOGLE_ADMANAGER_NETWORK_CODE e) \<Longrightarrow>
   probe e w = ([GetClient auth], Inl network_code_missing)"
  by (auto simp: probe_def absent_or_empty_def)

lemma probe_failed_setup:
  "str_includes msg (''n'' @ [CHR 0xE3] @ ''o configurad'') \<or> str_includes msg ''not configured''
   \<Longrightarrow> probe_failed msg
       = no_members\<lparr>status := 400, success := False, error := Some setup_message,
                     requiresSetup := Some True\<rparr>"
  by (simp add: probe_failed_def Let_def)

lemma probe_failed_other:
  "\<not> str_includes msg (''n'' @ [CHR 0xE3] @ ''o configurad'') \<Longrightarrow>
   \<not> str_includes msg ''not configured'' \<Longrightarrow>
   probe_failed msg
     = no_members\<lparr>status := 500, success := False, error := Some msg,
                   requiresSetup := Some False\<rparr>"
  by (simp add: probe_failed_def Let_def)

text \<open>
  Claim C4, as amended. A failure is classified by its message alone. The errors that
  the handler itself raises for absent or empty credentials or network code contain
  \<^verbatim>\<open>nao configurad\<close> (with a tilde on the a), so they give status 400 with \<^verbatim>\<open>success\<close> false and
  \<^verbatim>\<open>requiresSetup\<close> true; so does every other failure whose message contains that text
  or \<^verbatim>\<open>not configured\<close>. A failure whose message contains neither gives status 500
  with \<^verbatim>\<open>success\<close> false and \<^verbatim>\<open>requiresSetup\<close> false. Success gives status 200
  with \<^verbatim>\<open>success\<close> true and the six members of the network as \<^verbatim>\<open>networkInfo\<close>.
\<close>

theorem probe_outcomes:
  "(absent_or_empty (GOOGLE_SERVICE_ACCOUNT_EMAIL e)
    \<or> absent_or_empty (GOOGLE_SERVICE_ACCOUNT_PRIVATE_KEY e)
    \<or> (getGoogleAuth e = Inr auth \<and> getClient w auth = Inr ()
        \<and> absent_or_empty (GOOGLE_ADMANAGER_NETWORK_CODE e))
    \<longrightarrow> status (snd (test_connection e w)) = 400
        \<and> \<not> success (snd (test_connection e w))
        \<and> requiresSetup (snd (test_connection e w)) = Some True
        \<and> error (snd (test_connection e w)) = Some setup_message)
   \<and> (snd (probe e w) = Inl msg
      \<and> ((\<exists>p q. msg = p @ (''n'' @ [CHR 0xE3] @ ''o configurad'') @ q)
          \<or> (\<exists>p q. msg = p @ ''not configured'' @ q))
    \<longrightarrow> status (snd (test_connection e w)) = 400
        \<and> \<not> success (snd (test_connection e w))
        \<and> requiresSetup (snd (test_connection e w)) = Some True
        \<and> error (snd (test_connection e w)) = Some setup_message)
   \<and> (snd (probe e w) = Inl msg
      \<and> (\<nexists>p q. msg = p @ (''n'' @ [CHR 0xE3] @ ''o configurad'') @ q)
      \<and> (\<nexists>p q. msg = p @ ''not configured'' @ q)
    \<longrightarrow> status (snd (test_connection e w)) = 500
        \<and> \<not> success (snd (test_connection e w))
        \<and> requiresSetup (snd (test_connection e w)) = Some False
        \<and> error (snd (test_connection e w)) = Some msg)
   \<and> (snd (probe e w) = Inr n
    \<longrightarrow> status (snd (test_connection e w)) = 200
        \<and> success (snd (test_connection e w))
        \<and> networkInfo (snd (test_connection e w)) = Some n
        \<and> requiresSetup (snd (test_connection e w)) = None
        \<and> error (snd (test_connection e w)) = None)"
proof (intro conjI impI)
  assume h: "absent_or_empty (GOOGLE_SERVICE_ACCOUNT_EMAIL e)
    \<or> absent_or_empty (GOOGLE_SERVICE_ACCOUNT_PRIVATE_KEY e)
    \<or> (getGoogleAuth e = Inr auth \<and> getClient w auth = Inr ()
        \<and> absent_or_empty (GOOGLE_ADMANAGER_NETWORK_CODE e))"
  have "snd (test_connection e w) = probe_failed credentials_missing
        \<or> snd (test_connection e w) = probe_failed network_code_missing"
    using h getGoogleAuth_missing [of e] probe_credentials_missing [of e credentials_missing w]
      probe_network_code_missing [of e auth w]
    by (auto simp: test_connection_snd)
  then have r: "snd (test_connection e w)
       = no_members\<lparr>status := 400, success := False, error := Some setup_message,
                     requiresSetup := Some True\<rparr>"
    using probe_failed_setup [of credentials_missing] probe_failed_setup [of network_code_missing]
      credentials_missing_marked network_code_missing_marked
    by auto
  show "status (snd (test_connection e w)) = 400" "\<not> success (snd (test_connection e w))"
    "requiresSetup (snd (test_connection e w)) = Some True"
    "error (snd (test_connection e w)) = Some setup_message"
    by (simp_all add: r no_members_def)
next
  assume h: "snd (probe e w) = Inl msg
      \<and> ((\<exists>p q. msg = p @ (''n'' @ [CHR 0xE3] @ ''o configurad'') @ q)
          \<or> (\<exists>p q. msg = p @ ''not configured'' @ q))"
  then have r: "snd (test_connection e w)
       = no_members\<lparr>status := 400, success := False, error := Some setup_message,
                     requiresSetup := Some True\<rparr>"
    using probe_failed_setup [of msg]
    unfolding str_includes_iff [symmetric] by (simp add: test_connection_snd)
  show "status (snd (test_connection e w)) = 400" "\<not> success (snd (test_connection e w))"
    "requiresSetup (snd (test_connection e w)) = Some True"
    "error (snd (test_connection e w)) = Some setup_message"
    by (simp_all add: r no_members_def)
next
  assume h: "snd (probe e w) = Inl msg
      \<and> (\<nexists>p q. msg = p @ (''n'' @ [CHR 0xE3] @ ''o configurad'') @ q)
      \<and> (\<nexists>p q. msg = p @ ''not configured'' @ q)"
  then have r: "snd (test_connection e w)
       = no_members\<lparr>status := 500, success := False, error := Some msg,
                     requiresSetup := Some False\<rparr>"
    using probe_failed_other [of msg]
    unfolding str_includes_iff [symmetric] by (simp add: test_connection_snd)
  show "status (snd (test_connection e w)) = 500" "\<not> success (snd (test_connection e w))"
    "requiresSetup (snd (test_connection e w)) = Some False"
    "error (snd (test_connection e w)) = Some msg"
    by (simp_all add: r no_members_def)
next
  assume h: "snd (probe e w) = Inr n"
  then have r: "snd (test_connection e w) = probe_succeeded n"
    by (simp add: test_connection_snd)
  show "status (snd (test_connection e w)) = 200" "success (snd (test_connection e w))"
    "networkInfo (snd (test_connection e w)) = Some n"
    "requiresSetup (snd (test_connection e w)) = None"
    "error (snd (test_connection e w)) = None"
    by (simp_all add: r probe_succeeded_def no_members_def)
qed

lemma probe_env_ok_client_fails:
  "getClient w = (\<lambda>_. Inl msg) \<Longrightarrow> snd (probe env_ok w) = Inl msg"
  by (simp add: probe_def getGoogleAuth_def env_ok_def and_then_local and_then_outside)

lemma probe_env_ok_world_ok: "snd (probe env_ok world_ok) = Inr network_example"
  by (simp add: probe_def getGoogleAuth_def env_ok_def world_ok_def and_then_local and_then_outside)

text \<open>
  Claim C4 as stated fails: with the whole configuration present, a client error whose
  message happens to contain \<^verbatim>\<open>not configured\<close> is answered with 400 and
  \<^verbatim>\<open>requiresSetup\<close> true, not with 500.
\<close>

theorem probe_other_failure_counterexample:
  "\<not> absent_or_empty (GOOGLE_SERVICE_ACCOUNT_EMAIL env_ok)
   \<and> \<not> absent_or_empty (GOOGLE_SERVICE_ACCOUNT_PRIVATE_KEY env_ok)
   \<and> \<not> absent_or_empty (GOOGLE_ADMANAGER_NETWORK_CODE env_ok)
   \<and> snd (probe env_ok world_not_configured) = Inl ''API not configured''
   \<and> status (snd (test_connection env_ok world_not_configured)) = 400
   \<and> requiresSetup (snd (test_connection env_ok world_not_configured)) = Some True"
  by (simp add: test_connection_snd probe_env_ok_client_fails world_not_configured_def
      probe_failed_def no_members_def)
     (simp add: env_ok_def absent_or_empty_def)

theorem probe_outcomes_witness:
  "absent_or_empty (GOOGLE_SERVICE_ACCOUNT_EMAIL (env_ok\<lparr>GOOGLE_SERVICE_ACCOUNT_EMAIL := None\<rparr>))
   \<and> status (snd (test_connection (env_ok\<lparr>GOOGLE_SERVICE_ACCOUNT_EMAIL := None\<rparr>) world_ok)) = 400
   \<and> requiresSetup (snd (test_connection (env_ok\<lparr>GOOGLE_SERVICE_ACCOUNT_EMAIL := None\<rparr>) world_ok))
       = Some True
   \<and> snd (probe env_ok world_not_configured) = Inl ''API not configured''
   \<and> status (snd (test_connection env_ok world_not_configured)) = 400
   \<and> snd (probe env_ok world_client_fails) = Inl ''invalid_grant''
   \<and> status (snd (test_connection env_ok world_client_fails)) = 500
   \<and> requiresSetup (snd (test_connection env_ok world_client_fails)) = Some False
   \<and> error (snd (test_connection env_ok world_client_fails)) = Some ''invalid_grant''
   \<and> snd (probe env_ok world_ok) = Inr network_example
   \<and> status (snd (test_connection env_ok world_ok)) = 200
   \<and> networkInfo (snd (test_connection env_ok world_ok)) = Some network_example"
proof -
  have a: "absent_or_empty (GOOGLE_SERVICE_ACCOUNT_EMAIL (env_ok\<lparr>GOOGLE_SERVICE_ACCOUNT_EMAIL := None\<rparr>))"
    by (simp add: absent_or_empty_def)
  have b: "snd (probe env_ok world_not_configured) = Inl ''API not configured''
           \<and> ((\<exists>p q. ''API not configured'' = p @ (''n'' @ [CHR 0xE3] @ ''o configurad'') @ q)
               \<or> (\<exists>p q. ''API not configured'' = p @ ''not configured'' @ q))"
    unfolding str_includes_iff [symmetric]
    by (simp add: probe_env_ok_client_fails world_not_configured_def)
  have c: "snd (probe env_ok world_client_fails) = Inl ''invalid_grant''
      \<and> (\<nexists>p q. ''invalid_grant'' = p @ (''n'' @ [CHR 0xE3] @ ''o configurad'') @ q)
      \<and> (\<nexists>p q. ''invalid_grant'' = p @ ''not configured'' @ q)"
    unfolding str_includes_iff [symmetric]
    by (simp add: probe_env_ok_client_fails world_client_fails_def)
  note d = probe_env_ok_world_ok
  have a': "status (snd (test_connection (env_ok\<lparr>GOOGLE_SERVICE_ACCOUNT_EMAIL := None\<rparr>) world_ok)) = 400
   \<and> requiresSetup (snd (test_connection (env_ok\<lparr>GOOGLE_SERVICE_ACCOUNT_EMAIL := None\<rparr>) world_ok))
       = Some True"
    using a probe_outcomes [of "env_ok\<lparr>GOOGLE_SERVICE_ACCOUNT_EMAIL := None\<rparr>" "\<lparr>client_email = [], private_key = [], scopes = []\<rparr>" world_ok]
    by simp
  have b': "status (snd (test_connection env_ok world_not_configured)) = 400"
    using b probe_outcomes [of env_ok "\<lparr>client_email = [], private_key = [], scopes = []\<rparr>" world_not_configured "''API not configured''"]
    by simp
  have c': "status (snd (test_connection env_ok world_client_fails)) = 500
   \<and> requiresSetup (snd (test_connection env_ok world_client_fails)) = Some False
   \<and> error (snd (test_connection env_ok world_client_fails)) = Some ''invalid_grant''"
    using c probe_outcomes [of env_ok "\<lparr>client_email = [], private_key = [], scopes = []\<rparr>" world_client_fails "''invalid_grant''"]
    by simp
  have d': "status (snd (test_connection env_ok world_ok)) = 200
   \<and> networkInfo (snd (test_connection env_ok world_ok)) = Some network_example"
    using d probe_outcomes [of env_ok "\<lparr>client_email = [], private_key = [], scopes = []\<rparr>" world_ok "[]" network_example]
    by simp
  show ?thesis
    using a b c d a' b' c' d' by simp
qed

subsection \<open>String conversion\<close>

lemma join_comma_Inr_iff:
  "(\<exists>s. join_comma rs = Inr s) \<longleftrightarrow> (\<forall>r \<in> set rs. \<exists>s. r = Inr s)"
  by (induction rs rule: join_comma.induct) (auto split: sum.splits)

lemma to_string_Inr_iff: "(\<exists>s. to_string ns v = Inr s) \<longleftrightarrow> convertible v"
proof (induction v rule: convertible.induct)
  case (1 xs)
  have "(\<exists>s. to_string ns (JArray xs) = Inr s)
        \<longleftrightarrow> (\<forall>x \<in> set xs. x = JNull \<or> (\<exists>s. to_string ns x = Inr s))"
    by (auto simp: join_comma_Inr_iff)
  also have "\<dots> \<longleftrightarrow> (\<forall>x \<in> set xs. convertible x)"
    using 1 by auto
  finally show ?case by simp
qed auto

lemma to_string_opt_Inr_iff: "(\<exists>s. to_string_opt ns v = Inr s) \<longleftrightarrow> converts v"
  by (cases v) (simp_all add: to_string_opt_def converts_def to_string_Inr_iff)

lemma primitive_converts:
  "converts (website_or_default None)"
  "converts (website_or_default (Some JNull))"
  "converts (website_or_default (Some (JBool x)))"
  "converts (website_or_default (Some (JNumber n)))"
  "converts (website_or_default (Some (JString s)))"
  by (simp_all add: converts_def website_or_default_def)

lemma log_params_websiteUrl:
  assumes "converts (website_or_default v1)" "converts (website_or_default v2)"
  shows "log_params w (b\<lparr>websiteUrl := v1\<rparr>) = log_params w (b\<lparr>websiteUrl := v2\<rparr>)"
proof -
  from assms obtain s1 s2
    where "to_string_opt (number_to_string w) (website_or_default v1) = Inr s1"
      and "to_string_opt (number_to_string w) (website_or_default v2) = Inr s2"
    using to_string_opt_Inr_iff by metis
  then show ?thesis by (simp add: log_params_def split: sum.splits)
qed

lemma build_report_job_websiteUrl:
  "build_report_job w (b\<lparr>websiteUrl := v\<rparr>) = build_report_job w b"
  by (simp add: build_report_job_def cong: sum.case_cong)

lemma run_report_websiteUrl:
  assumes "converts (website_or_default v1)" "converts (website_or_default v2)"
  shows "run_report e w (b\<lparr>websiteUrl := v1\<rparr>) = run_report e w (b\<lparr>websiteUrl := v2\<rparr>)"
  using log_params_websiteUrl [OF assms]
  by (simp add: run_report_def build_report_job_websiteUrl)

lemma revenue_found_websiteUrl:
  "revenue_found (b\<lparr>websiteUrl := v\<rparr>) csv = (revenue_found b csv)\<lparr>res_websiteUrl := v\<rparr>"
  by (simp add: revenue_found_def no_members_def Let_def)

lemma revenue_websiteUrl:
  assumes "converts (website_or_default v1)" "converts (website_or_default v2)"
  shows "fst (revenue e w (b\<lparr>websiteUrl := v1\<rparr>)) = fst (revenue e w (b\<lparr>websiteUrl := v2\<rparr>))"
    and "map_sum id (\<lambda>r. r\<lparr>res_websiteUrl := None\<rparr>) (snd (revenue e w (b\<lparr>websiteUrl := v1\<rparr>)))
         = map_sum id (\<lambda>r. r\<lparr>res_websiteUrl := None\<rparr>) (snd (revenue e w (b\<lparr>websiteUrl := v2\<rparr>)))"
  using run_report_websiteUrl [OF assms, of e w b]
  by (simp_all add: revenue_def and_then_pair revenue_found_websiteUrl split: sum.splits)

subsection \<open>The member \<^verbatim>\<open>websiteUrl\<close>\<close>

text \<open>
  Claim C10, as amended. Take two requests that differ in \<^verbatim>\<open>websiteUrl\<close> only, each
  with a \<^verbatim>\<open>websiteUrl\<close> that the log line can convert to a string: absent, \<^verbatim>\<open>null\<close>,
  a boolean, a number, a string (lemma \<open>primitive_converts\<close>), or any other value that
  is neither an object with a member of its own named \<^verbatim>\<open>toString\<close> nor an array
  holding such an object at any depth of arrays. Then the two runs make the same
  outside calls, so submit the same report job, and their responses agree in
  \<^verbatim>\<open>totalRevenue\<close>, \<^verbatim>\<open>source\<close>, \<^verbatim>\<open>recordsFound\<close> and every other member except
  the echoed \<^verbatim>\<open>websiteUrl\<close>.
\<close>

theorem websiteUrl_only_echoed:
  assumes "converts (website_or_default v1)" and "converts (website_or_default v2)"
  shows "fst (admanager_revenue e w (b\<lparr>websiteUrl := v1\<rparr>))
           = fst (admanager_revenue e w (b\<lparr>websiteUrl := v2\<rparr>))
         \<and> jobs_submitted (fst (admanager_revenue e w (b\<lparr>websiteUrl := v1\<rparr>)))
           = jobs_submitted (fst (admanager_revenue e w (b\<lparr>websiteUrl := v2\<rparr>)))
         \<and> totalRevenue (snd (admanager_revenue e w (b\<lparr>websiteUrl := v1\<rparr>)))
           = totalRevenue (snd (admanager_revenue e w (b\<lparr>websiteUrl := v2\<rparr>)))
         \<and> source (snd (admanager_revenue e w (b\<lparr>websiteUrl := v1\<rparr>)))
           = source (snd (admanager_revenue e w (b\<lparr>websiteUrl := v2\<rparr>)))
         \<and> recordsFound (snd (admanager_revenue e w (b\<lparr>websiteUrl := v1\<rparr>)))
           = recordsFound (snd (admanager_revenue e w (b\<lparr>websiteUrl := v2\<rparr>)))
         \<and> (snd (admanager_revenue e w (b\<lparr>websiteUrl := v1\<rparr>)))\<lparr>res_websiteUrl := None\<rparr>
           = (snd (admanager_revenue e w (b\<lparr>websiteUrl := v2\<rparr>)))\<lparr>res_websiteUrl := None\<rparr>"
proof -
  let ?r1 = "admanager_revenue e w (b\<lparr>websiteUrl := v1\<rparr>)"
  let ?r2 = "admanager_revenue e w (b\<lparr>websiteUrl := v2\<rparr>)"
  have calls: "fst ?r1 = fst ?r2"
  proof (cases "params_present b")
    case True
    then have "params_present (b\<lparr>websiteUrl := v1\<rparr>)" "params_present (b\<lparr>websiteUrl := v2\<rparr>)"
      by (simp_all add: params_present_def)
    then show ?thesis
      using revenue_websiteUrl(1) [OF assms, of e w b] by (simp add: admanager_revenue_fst)
  next
    case False
    then show ?thesis by (simp add: admanager_revenue_def params_present_def)
  qed
  have rest: "(snd ?r1)\<lparr>res_websiteUrl := None\<rparr> = (snd ?r2)\<lparr>res_websiteUrl := None\<rparr>"
  proof (cases "params_present b")
    case True
    then have "params_present (b\<lparr>websiteUrl := v1\<rparr>)" "params_present (b\<lparr>websiteUrl := v2\<rparr>)"
      by (simp_all add: params_present_def)
    then show ?thesis
      using revenue_websiteUrl(2) [OF assms, of e w b]
      by (auto simp: admanager_revenue_snd split: sum.splits)
  next
    case False
    then show ?thesis by (simp add: admanager_revenue_def params_present_def)
  qed
  have "totalRevenue ((snd ?r1)\<lparr>res_websiteUrl := None\<rparr>) = totalRevenue ((snd ?r2)\<lparr>res_websiteUrl := None\<rparr>)"
    "source ((snd ?r1)\<lparr>res_websiteUrl := None\<rparr>) = source ((snd ?r2)\<lparr>res_websiteUrl := None\<rparr>)"
    "recordsFound ((snd ?r1)\<lparr>res_websiteUrl := None\<rparr>) = recordsFound ((snd ?r2)\<lparr>res_websiteUrl := None\<rparr>)"
    by (simp_all only: rest)
  then have "totalRevenue (snd ?r1) = totalRevenue (snd ?r2)"
    "source (snd ?r1) = source (snd ?r2)" "recordsFound (snd ?r1) = recordsFound (snd ?r2)"
    by simp_all
  with calls rest show ?thesis by simp
qed


subsection \<open>The whole pipeline on the concrete requests\<close>

lemma jobs_submitted_replicate_status [simp]:
  "jobs_submitted (replicate n (GetReportJobStatus j)) = []"
  by (induction n) simp_all

lemma poll_submits_nothing: "jobs_submitted (fst (poll w jid isReady attempts)) = []"
proof -
  have "set cs \<subseteq> {GetReportJobStatus jid} \<Longrightarrow> jobs_submitted cs = []" for cs
    by (induction cs) auto
  then show ?thesis using poll_only_status_checks by blast
qed

lemma await_report_submits_nothing: "jobs_submitted (fst (await_report w jid)) = []"
  using poll_submits_nothing [of w jid False 0]
  by (simp add: await_report_def and_then_pair split: sum.splits prod.splits)

lemma download_report_submits_nothing: "jobs_submitted (fst (download_report w jid)) = []"
  by (simp add: download_report_def and_then_outside split: sum.splits)

lemma revenue_jobs_submitted:
  "jobs_submitted (fst (revenue e w b)) = jobs_submitted (fst (run_report e w b))"
  using await_report_submits_nothing download_report_submits_nothing
  by (simp add: revenue_def and_then_pair split: sum.splits)

lemma await_report_world_ok:
  "await_report world_ok jid = (replicate 3 (GetReportJobStatus jid), Inr ())"
proof -
  have "await_report world_ok jid = (replicate (Suc 2) (GetReportJobStatus jid), Inr ())"
    by (rule await_report_completed) (simp_all add: world_ok_def maxAttempts_def)
  then show ?thesis by (simp add: numeral_3_eq_3)
qed

lemma download_report_world_ok: "snd (download_report world_ok jid) = Inr csv_example"
  by (simp add: download_report_def world_ok_def and_then_outside)

lemma revenue_world_ok:
  assumes "run_report env_ok world_ok b = (cs, Inr jid)"
  shows "snd (revenue env_ok world_ok b) = Inr (revenue_found b csv_example)"
  using assms await_report_world_ok [of jid] download_report_world_ok [of jid]
  by (simp add: revenue_def and_then_pair)


lemma run_report_with_site:
  "run_report env_ok world_ok body_with_site
   = ([GetClient (projr (getGoogleAuth env_ok)), Dfp, RunReportJob report_job_ok], Inr ''job-1'')"
proof -
  have "run_report env_ok world_ok body_with_site
        = run_report env_ok world_ok (body_ok\<lparr>websiteUrl := None\<rparr>)"
    unfolding body_with_site_def
    by (rule run_report_websiteUrl) (simp_all add: primitive_converts)
  moreover have "body_ok\<lparr>websiteUrl := None\<rparr> = body_ok"
    by (simp add: body_ok_def)
  ultimately show ?thesis
    by (simp add: run_report_ok world_ok_def)
qed

lemma run_report_object_site:
  "run_report env_ok world_ok body_object_site = ([], Inl cannot_convert)"
  by (simp add: run_report_def log_params_def to_string_opt_def website_or_default_def
      body_object_site_def body_ok_def)

text \<open>
  Claim C10 as stated fails. The two requests below differ in \<^verbatim>\<open>websiteUrl\<close> only.
  With a string the job is submitted and the revenue is real; with the object
  \<^verbatim>\<open>{"toString": null}\<close> the log line \<^verbatim>\<open>console.log(`... ${websiteUrl || ...}`)\<close>
  throws a TypeError before any outside call, and the answer is the mock result.
\<close>

theorem websiteUrl_counterexample:
  "jobs_submitted (fst (admanager_revenue env_ok world_ok body_with_site)) = [report_job_ok]
   \<and> source (snd (admanager_revenue env_ok world_ok body_with_site)) = Some ''real''
   \<and> totalRevenue (snd (admanager_revenue env_ok world_ok body_with_site)) = Some (Num 20)
   \<and> jobs_submitted (fst (admanager_revenue env_ok world_ok body_object_site)) = []
   \<and> source (snd (admanager_revenue env_ok world_ok body_object_site)) = Some ''mock''
   \<and> totalRevenue (snd (admanager_revenue env_ok world_ok body_object_site)) = Some (Num 0)
   \<and> body_object_site = body_with_site\<lparr>websiteUrl := Some (JObject [(''toString'', JNull)])\<rparr>"
proof -
  have p: "params_present body_with_site" "params_present body_object_site"
    by (simp_all add: params_present_def body_with_site_def body_object_site_def body_ok_def)
  have real: "snd (revenue env_ok world_ok body_with_site)
              = Inr (revenue_found body_with_site csv_example)"
    using run_report_with_site by (rule revenue_world_ok)
  have mock: "snd (revenue env_ok world_ok body_object_site) = Inl cannot_convert"
    by (simp add: revenue_Inl_iff run_report_object_site)
  have j1: "jobs_submitted (fst (admanager_revenue env_ok world_ok body_with_site)) = [report_job_ok]"
    using p(1) by (simp add: admanager_revenue_fst revenue_jobs_submitted run_report_with_site)
  have j2: "jobs_submitted (fst (admanager_revenue env_ok world_ok body_object_site)) = []"
    using p(2) by (simp add: admanager_revenue_fst revenue_jobs_submitted run_report_object_site)
  have r1: "snd (admanager_revenue env_ok world_ok body_with_site)
            = revenue_found body_with_site csv_example"
    using p(1) real by (simp add: admanager_revenue_snd)
  have r2: "snd (admanager_revenue env_ok world_ok body_object_site) = mock_result cannot_convert"
    using p(2) mock by (simp add: admanager_revenue_snd)
  have same: "body_object_site = body_with_site\<lparr>websiteUrl := Some (JObject [(''toString'', JNull)])\<rparr>"
    by (simp add: body_object_site_def body_with_site_def)
  have f1: "source (revenue_found body_with_site csv_example) = Some ''real''
            \<and> totalRevenue (revenue_found body_with_site csv_example) = Some (Num 20)"
    by (simp add: revenue_found_def no_members_def csv_example_lines csv_example_sum)
  have f2: "source (mock_result cannot_convert) = Some ''mock''
            \<and> totalRevenue (mock_result cannot_convert) = Some (Num 0)"
    by (simp add: mock_result_def no_members_def)
  show ?thesis
    using j1 j2 f1 f2 same unfolding r1 r2 by simp
qed

theorem websiteUrl_only_echoed_witness:
  "converts (website_or_default None)
   \<and> converts (website_or_default (Some (JString ''https://example.test'')))
   \<and> jobs_submitted (fst (admanager_revenue env_ok world_ok (body_ok\<lparr>websiteUrl := None\<rparr>)))
     = jobs_submitted (fst (admanager_revenue env_ok world_ok
         (body_ok\<lparr>websiteUrl := Some (JString ''https://example.test'')\<rparr>)))
   \<and> totalRevenue (snd (admanager_revenue env_ok world_ok (body_ok\<lparr>websiteUrl := None\<rparr>)))
     = totalRevenue (snd (admanager_revenue env_ok world_ok
         (body_ok\<lparr>websiteUrl := Some (JString ''https://example.test'')\<rparr>)))
   \<and> source (snd (admanager_revenue env_ok world_ok (body_ok\<lparr>websiteUrl := None\<rparr>)))
     = source (snd (admanager_revenue env_ok world_ok
         (body_ok\<lparr>websiteUrl := Some (JString ''https://example.test'')\<rparr>)))
   \<and> recordsFound (snd (admanager_revenue env_ok world_ok (body_ok\<lparr>websiteUrl := None\<rparr>)))
     = recordsFound (snd (admanager_revenue env_ok world_ok
         (body_ok\<lparr>websiteUrl := Some (JString ''https://example.test'')\<rparr>)))"
proof -
  have c1: "converts (website_or_default None)"
    and c2: "converts (website_or_default (Some (JString ''https://example.test'')))"
    by (simp_all add: primitive_converts)
  show ?thesis
    using c1 c2 websiteUrl_only_echoed [OF c1 c2, of env_ok world_ok body_ok]
    by blast
qed

subsection \<open>The dates of the request\<close>

lemma split_no_separator: "c \<notin> set xs \<Longrightarrow> split c xs = [xs]"
  by (induction xs) auto

lemma split_at_separator: "c \<notin> set xs \<Longrightarrow> split c (xs @ c # ys) = xs # split c ys"
  by (induction xs) auto

lemma is_digit_not_other:
  "is_digit c \<Longrightarrow> c \<noteq> CHR ''-'' \<and> c \<noteq> CHR ''+'' \<and> c \<noteq> CHR ''x'' \<and> c \<noteq> CHR ''X'' \<and> \<not> is_space c"
  by (auto simp: is_digit_def is_space_def)

text \<open>
  \<^verbatim>\<open>parseInt\<close> rounds above \<open>2 ^ 53\<close>; a run of at most 15 decimal digits is below it
  and is read exactly.
\<close>

lemma parse_int_string_rounds:
  "parse_int_string ''9007199254740993'' = Num 9007199254740992"
  by (simp add: parse_int_string_def number_of_nat_def trim_start_def is_space_def is_digit_def
      is_hex_digit_def digits_value_def digit_value_def Let_def bit_length.simps)

lemma digit_value_le: "is_digit c \<Longrightarrow> digit_value c \<le> 9"
  by (auto simp: is_digit_def digit_value_def Let_def)

lemma digits_value_snoc:
  "digits_value radix (ds @ [d]) = digits_value radix ds * radix + digit_value d"
  by (simp add: digits_value_def)

lemma digits_value_less: "list_all is_digit ds \<Longrightarrow> digits_value 10 ds < 10 ^ length ds"
proof (induction ds rule: rev_induct)
  case Nil
  then show ?case by (simp add: digits_value_def)
next
  case (snoc d ds)
  then have "digits_value 10 ds < 10 ^ length ds" and "digit_value d \<le> 9"
    by (simp_all add: digit_value_le)
  then have "digits_value 10 ds * 10 + digit_value d < 10 ^ length ds * 10"
    by arith
  then show ?case by (simp add: digits_value_snoc mult.commute)
qed

lemma parse_int_string_digits:
  assumes "ds \<noteq> []" and "list_all is_digit ds" and "length ds \<le> 15"
  shows "parse_int_string ds = Num (of_nat (digits_value 10 ds))"
proof -
  from assms obtain d rest where ds: "ds = d # rest" by (cases ds) auto
  with assms(2) have d: "is_digit d" and rest: "list_all is_digit rest" by simp_all
  have t: "trim_start ds = ds"
    using is_digit_not_other [OF d] by (simp add: ds trim_start_def)
  have nohex: "\<not> prefix ''0x'' ds" "\<not> prefix ''0X'' ds"
    using rest is_digit_not_other by (cases rest; auto simp: ds)+
  have all: "takeWhile is_digit ds = ds"
    using assms(2) by (simp add: takeWhile_eq_all_conv list_all_iff)
  have neg: "(case ds of [] \<Rightarrow> False | c # _ \<Rightarrow> c = CHR ''-'') = False"
    using is_digit_not_other [OF d] by (simp add: ds)
  have u: "(case ds of [] \<Rightarrow> [] | c # r \<Rightarrow> if c = CHR ''-'' \<or> c = CHR ''+'' then r else ds) = ds"
    using is_digit_not_other [OF d] by (simp add: ds)
  have hex: "(prefix ''0x'' ds \<or> prefix ''0X'' ds) = False"
    using nohex by simp
  have "digits_value 10 ds < 10 ^ length ds"
    using assms(2) by (rule digits_value_less)
  also have "(10::nat) ^ length ds \<le> 10 ^ 15"
    using assms(3) by (intro power_increasing) simp_all
  also have "(10::nat) ^ 15 < 2 ^ 53" by simp
  finally have small: "digits_value 10 ds < 2 ^ 53" .
  then have exact: "number_of_nat (digits_value 10 ds) = Num (of_nat (digits_value 10 ds))"
    by (simp add: number_of_nat_def)
  show ?thesis
    unfolding parse_int_string_def t Let_def neg u hex if_False all exact
    using assms(1) by simp
qed

lemma yyyy_mm_dd_parts:
  assumes "yyyy_mm_dd s"
  shows "s = take 4 s @ CHR ''-'' # take 2 (drop 5 s) @ CHR ''-'' # drop 8 s"
proof -
  from assms have len: "length s = 10" and h1: "s ! 4 = CHR ''-''" and h2: "s ! 7 = CHR ''-''"
    by (simp_all add: yyyy_mm_dd_def)
  have "s = take 4 s @ drop 4 s" by simp
  also have "drop 4 s = s ! 4 # drop 5 s"
    using len by (simp add: Cons_nth_drop_Suc [symmetric])
  also have "drop 5 s = take 2 (drop 5 s) @ drop 2 (drop 5 s)"
    by (simp only: append_take_drop_id)
  also have "drop 2 (drop 5 s) = s ! 7 # drop 8 s"
    using len by (simp add: Cons_nth_drop_Suc [symmetric])
  finally show ?thesis using h1 h2 by simp
qed

lemma split_yyyy_mm_dd:
  assumes "yyyy_mm_dd s"
  shows "split CHR ''-'' s = [take 4 s, take 2 (drop 5 s), drop 8 s]"
proof -
  from assms have d: "list_all is_digit (take 4 s)" "list_all is_digit (take 2 (drop 5 s))"
    "list_all is_digit (drop 8 s)"
    by (simp_all add: yyyy_mm_dd_def)
  have n: "CHR ''-'' \<notin> set (take 4 s)" "CHR ''-'' \<notin> set (take 2 (drop 5 s))"
    "CHR ''-'' \<notin> set (drop 8 s)"
    using d is_digit_not_other by (auto simp: list_all_iff)
  have "split CHR ''-'' (take 4 s @ CHR ''-'' # take 2 (drop 5 s) @ CHR ''-'' # drop 8 s)
        = [take 4 s, take 2 (drop 5 s), drop 8 s]"
    using n by (simp add: split_at_separator split_no_separator)
  then show ?thesis using yyyy_mm_dd_parts [OF assms] by simp
qed

lemma date_of_yyyy_mm_dd:
  assumes "yyyy_mm_dd s"
  shows "parseInt (at_index (split CHR ''-'' s) 0) = Num (of_nat (digits_value 10 (take 4 s)))
       \<and> parseInt (at_index (split CHR ''-'' s) 1) = Num (of_nat (digits_value 10 (take 2 (drop 5 s))))
       \<and> parseInt (at_index (split CHR ''-'' s) 2) = Num (of_nat (digits_value 10 (drop 8 s)))"
proof -
  from assms have d: "list_all is_digit (take 4 s)" "list_all is_digit (take 2 (drop 5 s))"
    "list_all is_digit (drop 8 s)" and len: "length s = 10"
    by (simp_all add: yyyy_mm_dd_def)
  from len have ne: "take 4 s \<noteq> []" "take 2 (drop 5 s) \<noteq> []" "drop 8 s \<noteq> []"
    by auto
  have short: "length (take 4 s) \<le> 15" "length (take 2 (drop 5 s)) \<le> 15" "length (drop 8 s) \<le> 15"
    using len by simp_all
  show ?thesis
    using parse_int_string_digits [OF ne(1) d(1) short(1)]
      parse_int_string_digits [OF ne(2) d(2) short(2)]
      parse_int_string_digits [OF ne(3) d(3) short(3)]
    by (simp add: split_yyyy_mm_dd [OF assms] at_index_def parseInt_def)
qed

lemma parseInt_undefined: "parseInt None = NaN"
  by (simp add: parseInt_def parse_int_string_def trim_start_def is_space_def is_digit_def)

lemma date_of_string:
  "date_of name (Some (JString s))
   = Inr \<lparr>year = parseInt (at_index (split CHR ''-'' s) 0),
          month = parseInt (at_index (split CHR ''-'' s) 1),
          day = parseInt (at_index (split CHR ''-'' s) 2)\<rparr>"
  by (simp add: date_of_def)

lemma date_of_not_string:
  "truthy d \<Longrightarrow> \<not> is_string d \<Longrightarrow> date_of name d = Inl (name @ ''.split is not a function'')"
  by (cases d; simp add: date_of_def is_string_def split: json.splits)

lemma build_report_job_not_string:
  assumes "params_present b" and "\<not> is_string (startDate b) \<or> \<not> is_string (endDate b)"
  shows "build_report_job w b = Inl ''startDate.split is not a function''
         \<or> build_report_job w b = Inl ''endDate.split is not a function''"
proof (cases "is_string (startDate b)")
  case True
  then obtain s where "startDate b = Some (JString s)"
    by (auto simp: is_string_def split: option.splits json.splits)
  moreover from True assms have "date_of ''endDate'' (endDate b) = Inl ''endDate.split is not a function''"
    using date_of_not_string [of "endDate b" "''endDate''"] by (simp add: params_present_def)
  ultimately show ?thesis by (simp add: build_report_job_def date_of_string)
next
  case False
  with assms(1) have "date_of ''startDate'' (startDate b) = Inl ''startDate.split is not a function''"
    using date_of_not_string [of "startDate b" "''startDate''"] by (simp add: params_present_def)
  then show ?thesis by (simp add: build_report_job_def)
qed

lemma run_report_job_not_built:
  assumes "build_report_job w b = Inl m"
  shows "jobs_submitted (fst (run_report e w b)) = [] \<and> (\<exists>msg. snd (run_report e w b) = Inl msg)"
  using assms
  by (simp add: run_report_def and_then_local and_then_outside split: sum.splits)


text \<open>
  Claim C7, as amended. The handler makes no test of the date format: a request is
  answered 400 exactly when \<^verbatim>\<open>utmCampaign\<close>, \<^verbatim>\<open>startDate\<close> or \<^verbatim>\<open>endDate\<close> is falsy.
  When a request passes this test with \<^verbatim>\<open>startDate\<close> and \<^verbatim>\<open>endDate\<close> strings,
  whatever they contain, and a \<^verbatim>\<open>utmCampaign\<close> that converts to a string, the report
  job is built: for each date its year, month and day are \<^verbatim>\<open>parseInt\<close> of the first,
  second and third piece between hyphens, and \<^verbatim>\<open>parseInt\<close> of a missing piece
  (\<^verbatim>\<open>undefined\<close>) is \<^verbatim>\<open>NaN\<close>. That job is the one submitted once the log lines are
  written (\<^verbatim>\<open>websiteUrl\<close> converts to a string) and the credentials, the client and the
  service are obtained. For a date of the form \<^verbatim>\<open>YYYY-MM-DD\<close> the three values are the
  numbers written by its digits. When a request passes the test with a \<^verbatim>\<open>startDate\<close>
  or \<^verbatim>\<open>endDate\<close> that is not a string, \<^verbatim>\<open>split\<close> is not a function of it: no job
  is submitted and the answer is the mock result.
\<close>

theorem dates_not_validated:
  "(status (snd (admanager_revenue e w b)) = 400 \<longleftrightarrow> \<not> params_present b)
   \<and> (params_present b \<and> startDate b = Some (JString s) \<and> endDate b = Some (JString t)
       \<and> converts (utmCampaign b)
      \<longrightarrow> (\<exists>tag job. to_string_opt (number_to_string w) (utmCampaign b) = Inr tag
             \<and> job = \<lparr>reportQuery =
                      \<lparr>dimensions = [''DATE'', ''AD_UNIT_NAME''],
                       columns = [''AD_EXCHANGE_REVENUE''],
                       dateRangeType = ''CUSTOM_DATE'',
                       rq_startDate =
                         \<lparr>year = parseInt (at_index (split CHR ''-'' s) 0),
                          month = parseInt (at_index (split CHR ''-'' s) 1),
                          day = parseInt (at_index (split CHR ''-'' s) 2)\<rparr>,
                       rq_endDate =
                         \<lparr>year = parseInt (at_index (split CHR ''-'' t) 0),
                          month = parseInt (at_index (split CHR ''-'' t) 1),
                          day = parseInt (at_index (split CHR ''-'' t) 2)\<rparr>,
                       statement_query =
                         ''WHERE AD_UNIT_NAME LIKE '' @ [CHR 0x27] @ ''%'' @ tag @ ''%''
                         @ [CHR 0x27]\<rparr>\<rparr>
             \<and> build_report_job w b = Inr job
             \<and> (converts (website_or_default (websiteUrl b))
                 \<and> getGoogleAuth e = Inr auth \<and> getClient w auth = Inr () \<and> dfp w = Inr ()
                \<longrightarrow> jobs_submitted (fst (admanager_revenue e w b)) = [job])))
   \<and> (params_present b \<and> (\<not> is_string (startDate b) \<or> \<not> is_string (endDate b))
      \<longrightarrow> jobs_submitted (fst (admanager_revenue e w b)) = []
          \<and> status (snd (admanager_revenue e w b)) = 200
          \<and> source (snd (admanager_revenue e w b)) = Some ''mock''
          \<and> totalRevenue (snd (admanager_revenue e w b)) = Some (Num 0))
   \<and> parseInt None = NaN
   \<and> (yyyy_mm_dd s
      \<longrightarrow> parseInt (at_index (split CHR ''-'' s) 0) = Num (of_nat (digits_value 10 (take 4 s)))
          \<and> parseInt (at_index (split CHR ''-'' s) 1)
              = Num (of_nat (digits_value 10 (take 2 (drop 5 s))))
          \<and> parseInt (at_index (split CHR ''-'' s) 2)
              = Num (of_nat (digits_value 10 (drop 8 s))))
   \<and> (yyyy_mm_dd t
      \<longrightarrow> parseInt (at_index (split CHR ''-'' t) 0) = Num (of_nat (digits_value 10 (take 4 t)))
          \<and> parseInt (at_index (split CHR ''-'' t) 1)
              = Num (of_nat (digits_value 10 (take 2 (drop 5 t))))
          \<and> parseInt (at_index (split CHR ''-'' t) 2)
              = Num (of_nat (digits_value 10 (drop 8 t))))"
proof -
  have rejected: "status (snd (admanager_revenue e w b)) = 400 \<longleftrightarrow> \<not> params_present b"
  proof (cases "params_present b")
    case True
    then have "status (snd (admanager_revenue e w b)) = 200"
      using revenue_Inr_status [of e w b]
      by (simp add: admanager_revenue_snd mock_result_def no_members_def split: sum.splits)
    with True show ?thesis by simp
  next
    case False
    then show ?thesis
      by (simp add: admanager_revenue_def params_present_def bad_request_def no_members_def)
  qed
  have built: "(\<exists>tag job. to_string_opt (number_to_string w) (utmCampaign b) = Inr tag
               \<and> job = \<lparr>reportQuery =
                        \<lparr>dimensions = [''DATE'', ''AD_UNIT_NAME''],
                         columns = [''AD_EXCHANGE_REVENUE''],
                         dateRangeType = ''CUSTOM_DATE'',
                         rq_startDate =
                           \<lparr>year = parseInt (at_index (split CHR ''-'' s) 0),
                            month = parseInt (at_index (split CHR ''-'' s) 1),
                            day = parseInt (at_index (split CHR ''-'' s) 2)\<rparr>,
                         rq_endDate =
                           \<lparr>year = parseInt (at_index (split CHR ''-'' t) 0),
                            month = parseInt (at_index (split CHR ''-'' t) 1),
                            day = parseInt (at_index (split CHR ''-'' t) 2)\<rparr>,
                         statement_query =
                           ''WHERE AD_UNIT_NAME LIKE '' @ [CHR 0x27] @ ''%'' @ tag @ ''%''
                           @ [CHR 0x27]\<rparr>\<rparr>
               \<and> build_report_job w b = Inr job
               \<and> (converts (website_or_default (websiteUrl b))
                   \<and> getGoogleAuth e = Inr auth \<and> getClient w auth = Inr () \<and> dfp w = Inr ()
                  \<longrightarrow> jobs_submitted (fst (admanager_revenue e w b)) = [job]))"
    if h: "params_present b \<and> startDate b = Some (JString s) \<and> endDate b = Some (JString t)
       \<and> converts (utmCampaign b)"
  proof -
    from h obtain tag
      where tag: "to_string_opt (number_to_string w) (utmCampaign b) = Inr tag"
      using to_string_opt_Inr_iff by metis
    define job where "job = \<lparr>reportQuery =
                        \<lparr>dimensions = [''DATE'', ''AD_UNIT_NAME''],
                         columns = [''AD_EXCHANGE_REVENUE''],
                         dateRangeType = ''CUSTOM_DATE'',
                         rq_startDate =
                           \<lparr>year = parseInt (at_index (split CHR ''-'' s) 0),
                            month = parseInt (at_index (split CHR ''-'' s) 1),
                            day = parseInt (at_index (split CHR ''-'' s) 2)\<rparr>,
                         rq_endDate =
                           \<lparr>year = parseInt (at_index (split CHR ''-'' t) 0),
                            month = parseInt (at_index (split CHR ''-'' t) 1),
                            day = parseInt (at_index (split CHR ''-'' t) 2)\<rparr>,
                         statement_query =
                           ''WHERE AD_UNIT_NAME LIKE '' @ [CHR 0x27] @ ''%'' @ tag @ ''%''
                           @ [CHR 0x27]\<rparr>\<rparr>"
    have job: "build_report_job w b = Inr job"
      using h tag by (simp add: build_report_job_def date_of_string job_def)
    have sub: "jobs_submitted (fst (admanager_revenue e w b)) = [job]"
      if g: "converts (website_or_default (websiteUrl b))
                 \<and> getGoogleAuth e = Inr auth \<and> getClient w auth = Inr () \<and> dfp w = Inr ()"
    proof -
      from g obtain site
        where site: "to_string_opt (number_to_string w) (website_or_default (websiteUrl b)) = Inr site"
        using to_string_opt_Inr_iff by metis
      have logged: "log_params w b = Inr ()"
        using tag site h by (simp add: log_params_def to_string_opt_def)
      have "jobs_submitted (fst (run_report e w b)) = [job]"
        using g logged job
        by (simp add: run_report_def and_then_outside split: sum.splits)
      with h show ?thesis
        by (simp add: admanager_revenue_fst revenue_jobs_submitted)
    qed
    from tag job sub show ?thesis unfolding job_def by blast
  qed
  have aborted: "jobs_submitted (fst (admanager_revenue e w b)) = []
          \<and> status (snd (admanager_revenue e w b)) = 200
          \<and> source (snd (admanager_revenue e w b)) = Some ''mock''
          \<and> totalRevenue (snd (admanager_revenue e w b)) = Some (Num 0)"
    if h: "params_present b \<and> (\<not> is_string (startDate b) \<or> \<not> is_string (endDate b))"
  proof -
    from h obtain m where "build_report_job w b = Inl m"
      using build_report_job_not_string [of b w] by blast
    then obtain msg where none: "jobs_submitted (fst (run_report e w b)) = []"
      and failed: "snd (run_report e w b) = Inl msg"
      using run_report_job_not_built [of w b m e] by blast
    from failed have "snd (revenue e w b) = Inl msg"
      by (simp add: revenue_Inl_iff)
    with h none show ?thesis
      by (simp add: admanager_revenue_snd admanager_revenue_fst revenue_jobs_submitted
          mock_result_def no_members_def)
  qed
  show ?thesis
    using rejected built aborted parseInt_undefined date_of_yyyy_mm_dd [of s]
      date_of_yyyy_mm_dd [of t]
    by blast
qed


text \<open>
  Claim C7 as stated fails: the start date \<^verbatim>\<open>garbage\<close> is not of the form
  \<^verbatim>\<open>YYYY-MM-DD\<close>, yet the request is used to build and submit a report job, whose
  start date is made of three \<^verbatim>\<open>NaN\<close>, and the answer is a real result.
\<close>

theorem date_format_counterexample:
  "\<not> yyyy_mm_dd ''garbage''
   \<and> startDate body_garbage_date = Some (JString ''garbage'')
   \<and> jobs_submitted (fst (admanager_revenue env_ok world_ok body_garbage_date))
       = [report_job_garbage]
   \<and> status (snd (admanager_revenue env_ok world_ok body_garbage_date)) = 200
   \<and> source (snd (admanager_revenue env_ok world_ok body_garbage_date)) = Some ''real''"
proof -
  have p: "params_present body_garbage_date"
    by (simp add: params_present_def body_garbage_date_def body_ok_def)
  have logged: "log_params w body_garbage_date = Inr ()" for w
    by (simp add: log_params_def to_string_opt_def website_or_default_def
        body_garbage_date_def body_ok_def)
  have job: "build_report_job w body_garbage_date = Inr report_job_garbage" for w
    by (simp add: build_report_job_def date_of_def at_index_def parseInt_def
      parse_int_string_def number_of_nat_def trim_start_def is_space_def is_digit_def
      is_hex_digit_def digits_value_def digit_value_def body_ok_def body_garbage_date_def
      to_string_opt_def report_job_garbage_def)
  have run: "run_report env_ok world_ok body_garbage_date
      = ([GetClient (projr (getGoogleAuth env_ok)), Dfp, RunReportJob report_job_garbage],
         Inr ''job-1'')"
    by (simp add: run_report_def logged job getGoogleAuth_def env_ok_def and_then_local
        and_then_outside world_ok_def)
  have r: "snd (revenue env_ok world_ok body_garbage_date)
           = Inr (revenue_found body_garbage_date csv_example)"
    using run by (rule revenue_world_ok)
  have n: "\<not> yyyy_mm_dd ''garbage''"
    by (simp add: yyyy_mm_dd_def)
  have s: "startDate body_garbage_date = Some (JString ''garbage'')"
    by (simp add: body_garbage_date_def)
  have j: "jobs_submitted (fst (admanager_revenue env_ok world_ok body_garbage_date))
       = [report_job_garbage]"
    using p by (simp add: admanager_revenue_fst revenue_jobs_submitted run)
  have f: "status (snd (admanager_revenue env_ok world_ok body_garbage_date)) = 200
     \<and> source (snd (admanager_revenue env_ok world_ok body_garbage_date)) = Some ''real''"
    using p r by (simp add: admanager_revenue_snd revenue_found_def no_members_def Let_def)
  show ?thesis using n s j f by simp
qed

theorem dates_not_validated_witness:
  "params_present body_ok
   \<and> startDate body_ok = Some (JString ''2024-01-15'')
   \<and> endDate body_ok = Some (JString ''2024-02-29'')
   \<and> status (snd (admanager_revenue env_ok world_ok body_ok)) \<noteq> 400
   \<and> build_report_job world_ok body_ok = Inr report_job_ok
   \<and> jobs_submitted (fst (admanager_revenue env_ok world_ok body_ok)) = [report_job_ok]
   \<and> yyyy_mm_dd ''2024-01-15''
   \<and> parseInt (at_index (split CHR ''-'' ''2024-01-15'') 0) = Num 2024
   \<and> parseInt (at_index (split CHR ''-'' ''2024-01-15'') 1) = Num 1
   \<and> parseInt (at_index (split CHR ''-'' ''2024-01-15'') 2) = Num 15
   \<and> params_present body_number_date
   \<and> \<not> is_string (startDate body_number_date)
   \<and> jobs_submitted (fst (admanager_revenue env_ok world_ok body_number_date)) = []
   \<and> status (snd (admanager_revenue env_ok world_ok body_number_date)) = 200
   \<and> source (snd (admanager_revenue env_ok world_ok body_number_date)) = Some ''mock''"
proof -
  have a: "params_present body_ok \<and> startDate body_ok = Some (JString ''2024-01-15'')
       \<and> endDate body_ok = Some (JString ''2024-02-29'') \<and> converts (utmCampaign body_ok)"
    by (simp add: body_ok_present) (simp add: body_ok_def converts_def)
  have g: "converts (website_or_default (websiteUrl body_ok))
       \<and> getGoogleAuth env_ok = Inr (projr (getGoogleAuth env_ok))
       \<and> getClient world_ok (projr (getGoogleAuth env_ok)) = Inr () \<and> dfp world_ok = Inr ()"
    by (simp add: body_ok_def converts_def website_or_default_def getGoogleAuth_def env_ok_def
        world_ok_def)
  have y: "yyyy_mm_dd ''2024-01-15''"
    by (simp add: yyyy_mm_dd_def is_digit_def)
  have n: "params_present body_number_date \<and> \<not> is_string (startDate body_number_date)"
    by (simp add: params_present_def body_number_date_def body_ok_def is_string_def)
  note t1 = dates_not_validated [of env_ok world_ok body_ok "''2024-01-15''" "''2024-02-29''"
      "projr (getGoogleAuth env_ok)"]
  note t2 = dates_not_validated [of env_ok world_ok body_number_date "[]" "[]"
      "projr (getGoogleAuth env_ok)"]
  have st: "status (snd (admanager_revenue env_ok world_ok body_ok)) \<noteq> 400"
    using t1 a by blast
  have job: "build_report_job world_ok body_ok = Inr report_job_ok"
    by (rule build_report_job_ok)
  have "\<exists>job. build_report_job world_ok body_ok = Inr job
      \<and> jobs_submitted (fst (admanager_revenue env_ok world_ok body_ok)) = [job]"
    using t1 a g by blast
  with job have jobs: "jobs_submitted (fst (admanager_revenue env_ok world_ok body_ok)) = [report_job_ok]"
    by auto
  have nums: "parseInt (at_index (split CHR ''-'' ''2024-01-15'') 0) = Num 2024
   \<and> parseInt (at_index (split CHR ''-'' ''2024-01-15'') 1) = Num 1
   \<and> parseInt (at_index (split CHR ''-'' ''2024-01-15'') 2) = Num 15"
    using t1 y by (simp add: digits_value_def digit_value_def)
  have none: "jobs_submitted (fst (admanager_revenue env_ok world_ok body_number_date)) = []
   \<and> status (snd (admanager_revenue env_ok world_ok body_number_date)) = 200
   \<and> source (snd (admanager_revenue env_ok world_ok body_number_date)) = Some ''mock''"
    using t2 n by blast
  show ?thesis using a y st job jobs nums n none by simp
qed

end
